theory Spec2Isabelle
  imports Main "HOL-Library.Sublist" "HOL-Library.Word"
begin

section \<open>Errors\<close>

text \<open>
  Go errors are values. The constructors below are the ways the source files build or
  receive one:
  \<^item> \<open>ErrNoUserDaemon\<close>: the sentinel of package connect that \<open>Disconnect\<close> tests with
    \<open>errors.Is\<close>;
  \<^item> \<open>New msg\<close>: \<open>errors.New(msg)\<close>, also used for an error returned by a collaborator
    outside the repository (the kubeconfig loader, the socket, the file system);
  \<^item> \<open>Errorf format args\<close>: \<open>fmt.Errorf(format, args...)\<close> without a \<open>%w\<close> verb; the
    format and its string operands are kept apart, since the rendering of \<open>%q\<close> is not
    needed by any property;
  \<^item> \<open>ErrorfW format args err\<close>: \<open>fmt.Errorf\<close> with a \<open>%w\<close> verb wrapping \<open>err\<close>;
  \<^item> \<open>Categorized c err\<close>: what \<open>errcat.c.New\<close> and \<open>errcat.c.Newf\<close> return, an error
    carrying the category \<open>c\<close> around the error that \<open>fmt.Errorf\<close> built;
  \<^item> \<open>SyntaxError code expr\<close>: the \<open>*syntax.Error\<close> of \<open>regexp.Compile\<close>;
  \<^item> \<open>NilDereference\<close> and \<open>NilMapAssignment\<close>: the run-time panics of reading a field
    through a nil pointer and of assigning to an entry of a nil map. A panic ends the
    program; the model returns it where the function's error would be.
\<close>

datatype Category = User | Config | NoDaemonLogs

datatype error =
    ErrNoUserDaemon
  | New string
  | Errorf string "string list"
  | ErrorfW string "string list" error
  | Categorized Category error
  | SyntaxError string string
  | NilDereference
  | NilMapAssignment

text \<open>\<open>errors.Is(err, target)\<close>: \<open>err\<close> or an error it wraps equals \<open>target\<close>.\<close>

fun errors_Is :: "error \<Rightarrow> error \<Rightarrow> bool" where
  "errors_Is (ErrorfW f as e) target = (ErrorfW f as e = target \<or> errors_Is e target)"
| "errors_Is (Categorized c e) target = (Categorized c e = target \<or> errors_Is e target)"
| "errors_Is err target = (err = target)"

text \<open>
  Modelled from the spec: package errcat is not among the source files. Its categories
  are the classifications of section 7 of the specification; an error carries a
  category when it, or an error it wraps, was built by \<open>errcat.c.New\<close> or
  \<open>errcat.c.Newf\<close>, and carries none otherwise.
\<close>

fun GetCategory :: "error \<Rightarrow> Category option" where
  "GetCategory (Categorized c e) = Some c"
| "GetCategory (ErrorfW f as e) = GetCategory e"
| "GetCategory err = None"

section \<open>pkg/client/k8s\_config.go\<close>

subsection \<open>Data\<close>

record DNSMapping =
  Name :: string
  AliasFor :: string

text \<open>
  The generated \<open>rpc.DNSMapping\<close> message: its two payload fields (the bookkeeping fields of
  the protobuf run-time are not read or written by the source).
\<close>

record rpc_DNSMapping =
  Name :: string
  AliasFor :: string

text \<open>
  \<open>DNSMappings\<close> is \<open>[]*DNSMapping\<close>: a list of pointers, and a pointer may be nil
  (\<open>None\<close>).
\<close>

type_synonym DNSMappings = "DNSMapping option list"

type_synonym IPKey = string

type_synonym Subnet = string

text \<open>
  \<open>LookupTimeout\<close> is a \<open>v1.Duration\<close>, a struct around one \<open>time.Duration\<close> (an
  \<open>int64\<close>); the field below is that number.
\<close>

record DnsConfig =
  LocalIP :: IPKey
  RemoteIP :: IPKey
  ExcludeSuffixes :: "string list"
  IncludeSuffixes :: "string list"
  Excludes :: "string list"
  Mappings :: DNSMappings
  LookupTimeout :: "64 word"

record ManagerConfig =
  Namespace :: string

record KubeconfigExtension =
  DNS :: "DnsConfig option"
  AlsoProxy :: "Subnet option list"
  NeverProxy :: "Subnet option list"
  Manager :: "ManagerConfig option"

text \<open>
  The two collaborators' types that \<open>Kubeconfig\<close> holds: of \<open>rest.Config\<close> only \<open>Host\<close> is
  read by this file, of \<open>genericclioptions.ConfigFlags\<close> the request model sets \<open>Context\<close>
  and \<open>Namespace\<close> (both \<open>*string\<close>).
\<close>

record rest_Config =
  Host :: string

record ConfigFlags =
  Context :: "string option"
  Namespace :: "string option"

text \<open>\<open>Kubeconfig\<close> embeds \<open>KubeconfigExtension\<close>: the record extends it.\<close>

record Kubeconfig = KubeconfigExtension +
  Namespace :: string
  Context :: string
  Server :: string
  FlagMap :: "string \<rightharpoonup> string"
  ConfigFlags :: "ConfigFlags option"
  RestConfig :: "rest_Config option"

text \<open>The zero values that \<open>&DnsConfig{}\<close> and \<open>&ManagerConfig{}\<close> allocate.\<close>

definition DnsConfig_zero :: DnsConfig where
  "DnsConfig_zero =
     \<lparr>LocalIP = [], RemoteIP = [], ExcludeSuffixes = [], IncludeSuffixes = [],
      Excludes = [], Mappings = [], LookupTimeout = 0\<rparr>"

definition ManagerConfig_zero :: ManagerConfig where
  "ManagerConfig_zero = \<lparr>ManagerConfig.Namespace = []\<rparr>"

text \<open>A Go map read \<open>m[k]\<close> on a \<open>map[string]string\<close>: the empty string for a missing key.\<close>

definition index_map :: "(string \<rightharpoonup> string) \<Rightarrow> string \<Rightarrow> string" where
  "index_map m k = (case m k of None \<Rightarrow> [] | Some v \<Rightarrow> v)"

subsection \<open>DNSMappings.FromRPC and DNSMappings.ToRPC\<close>

text \<open>
  Both loops read \<open>.Name\<close> and \<open>.AliasFor\<close> through the pointer at each index, which
  panics on a nil entry, and append a pointer to a fresh struct.
\<close>

fun FromRPC :: "rpc_DNSMapping option list \<Rightarrow> error + DNSMappings" where
  "FromRPC [] = Inr []"
| "FromRPC (None # rpcMappings) = Inl NilDereference"
| "FromRPC (Some m # rpcMappings) =
     (case FromRPC rpcMappings of
        Inl err \<Rightarrow> Inl err
      | Inr d \<Rightarrow>
          Inr (Some \<lparr>DNSMapping.Name = rpc_DNSMapping.Name m,
                     DNSMapping.AliasFor = rpc_DNSMapping.AliasFor m\<rparr> # d))"

fun ToRPC :: "DNSMappings \<Rightarrow> error + rpc_DNSMapping option list" where
  "ToRPC [] = Inr []"
| "ToRPC (None # d) = Inl NilDereference"
| "ToRPC (Some m # d) =
     (case ToRPC d of
        Inl err \<Rightarrow> Inl err
      | Inr rpcMappings \<Rightarrow>
          Inr (Some \<lparr>rpc_DNSMapping.Name = DNSMapping.Name m,
                     rpc_DNSMapping.AliasFor = DNSMapping.AliasFor m\<rparr> # rpcMappings))"

subsection \<open>newKubeconfig\<close>

text \<open>
  The parts of client-go's \<open>api.Config\<close> that \<open>newKubeconfig\<close> reads. The Go maps are
  association lists read with \<open>map_of\<close>; their values are pointers (\<open>*api.Context\<close>,
  \<open>*api.Cluster\<close>), so a stored value may be nil. A cluster's extension is a
  \<open>runtime.Object\<close>: a \<open>*runtime.Unknown\<close> (again possibly a nil pointer) holding raw
  bytes, or an object of another type.
\<close>

record api_Context =
  Cluster :: string

datatype runtime_Object = Unknown "string option" | OtherObject

record api_Cluster =
  Server :: string
  Extensions :: "(string \<times> runtime_Object) list"

record api_Config =
  Contexts :: "(string \<times> api_Context option) list"
  Clusters :: "(string \<times> api_Cluster option) list"
  CurrentContext :: string

text \<open>
  What the \<open>clientcmd.ClientConfig\<close> loader of \<open>ToRawKubeConfigLoader\<close> answers to the
  three calls made on it (of \<open>Namespace()\<close>, the string and the error).
\<close>

record ClientConfig =
  RawConfig :: "error + api_Config"
  Namespace :: "error + string"
  ClientConfig :: "error + rest_Config"

text \<open>
  What \<open>newKubeconfig\<close> takes from outside the source file: the loader built from the
  flags, \<open>json.Unmarshal\<close> into a zero \<open>KubeconfigExtension\<close>,
  \<open>GetEnv(c).ManagerNamespace\<close> and \<open>GetConfig(c).Cluster().DefaultManagerNamespace\<close>.
\<close>

record client_env =
  ToRawKubeConfigLoader :: "ConfigFlags \<Rightarrow> ClientConfig"
  json_Unmarshal :: "string \<Rightarrow> error + KubeconfigExtension"
  Env_ManagerNamespace :: string
  DefaultManagerNamespace :: string

definition configExtension :: string where
  "configExtension = ''telepresence.io''"

text \<open>
  Lines 249 to 253: the extension is parsed only when the value stored under
  \<open>configExtension\<close> is a \<open>*runtime.Unknown\<close>; a missing key gives the nil interface, for
  which the type assertion fails as it does for any other type.
\<close>

definition load_extension ::
  "client_env \<Rightarrow> api_Cluster \<Rightarrow> Kubeconfig \<Rightarrow> error + Kubeconfig" where
  "load_extension env cluster k =
     (case map_of (Extensions cluster) configExtension of
        Some (Unknown None) \<Rightarrow> Inl NilDereference
      | Some (Unknown (Some raw)) \<Rightarrow>
          (case json_Unmarshal env raw of
             Inl err \<Rightarrow>
               Inl (Categorized Config
                 (ErrorfW ''unable to parse extension %s in kubeconfig: %w'' [configExtension] err))
           | Inr ext \<Rightarrow>
               Inr (k\<lparr>DNS := DNS ext, AlsoProxy := AlsoProxy ext,
                      NeverProxy := NeverProxy ext, Manager := Manager ext\<rparr>))
      | _ \<Rightarrow> Inr k)"

text \<open>
  Lines 255 to 268: the manager namespace. The pointer is allocated when nil; a
  non-empty override replaces the namespace; an empty namespace is then filled from the
  environment, and a still empty one from the configured default.
\<close>

definition resolve_manager_namespace :: "client_env \<Rightarrow> string \<Rightarrow> Kubeconfig \<Rightarrow> Kubeconfig" where
  "resolve_manager_namespace env managerNamespaceOverride k =
     (let m0 = (case Manager k of None \<Rightarrow> ManagerConfig_zero | Some m \<Rightarrow> m);
          m1 = (if managerNamespaceOverride \<noteq> []
                then m0\<lparr>ManagerConfig.Namespace := managerNamespaceOverride\<rparr> else m0);
          m2 = (if ManagerConfig.Namespace m1 = []
                then m1\<lparr>ManagerConfig.Namespace := Env_ManagerNamespace env\<rparr> else m1);
          m3 = (if ManagerConfig.Namespace m2 = []
                then m2\<lparr>ManagerConfig.Namespace := DefaultManagerNamespace env\<rparr> else m2)
      in k\<lparr>Manager := Some m3\<rparr>)"

definition newKubeconfig ::
  "client_env \<Rightarrow> (string \<rightharpoonup> string) \<Rightarrow> string \<Rightarrow> ConfigFlags \<Rightarrow> error + Kubeconfig" where
  "newKubeconfig env flagMap managerNamespaceOverride configFlags =
     (let configLoader = ToRawKubeConfigLoader env configFlags in
      case RawConfig configLoader of
        Inl err \<Rightarrow> Inl err
      | Inr config \<Rightarrow>
          if Contexts config = []
          then Inl (Categorized Config (New ''kubeconfig has no context definition''))
          else
            (case ClientConfig.Namespace configLoader of
               Inl err \<Rightarrow> Inl err
             | Inr namespace \<Rightarrow>
                 let ctxName = (if index_map flagMap ''context'' = []
                                then CurrentContext config else index_map flagMap ''context'') in
                 (case map_of (Contexts config) ctxName of
                    None \<Rightarrow>
                      Inl (Categorized Config
                        (Errorf ''context %q does not exist in the kubeconfig'' [ctxName]))
                  | Some None \<Rightarrow> Inl NilDereference
                  | Some (Some ctx) \<Rightarrow>
                      (case map_of (Clusters config) (Cluster ctx) of
                         None \<Rightarrow>
                           Inl (Categorized Config
                             (Errorf ''the cluster %q declared in context %q does exists in the kubeconfig''
                                [Cluster ctx, ctxName]))
                       | Some cluster \<Rightarrow>
                           (case ClientConfig configLoader of
                              Inl err \<Rightarrow> Inl err
                            | Inr restConfig \<Rightarrow>
                                (case cluster of
                                   None \<Rightarrow> Inl NilDereference
                                 | Some cl \<Rightarrow>
                                     (case load_extension env cl
                                        \<lparr>KubeconfigExtension.DNS = None,
                                         KubeconfigExtension.AlsoProxy = [],
                                         KubeconfigExtension.NeverProxy = [],
                                         KubeconfigExtension.Manager = None,
                                         Kubeconfig.Namespace = namespace,
                                         Kubeconfig.Context = ctxName,
                                         Kubeconfig.Server = api_Cluster.Server cl,
                                         Kubeconfig.FlagMap = flagMap,
                                         Kubeconfig.ConfigFlags = Some configFlags,
                                         Kubeconfig.RestConfig = Some restConfig\<rparr> of
                                        Inl err \<Rightarrow> Inl err
                                      | Inr k \<Rightarrow>
                                          Inr (resolve_manager_namespace env
                                                 managerNamespaceOverride k))))))))"

subsection \<open>Kubeconfig.AddRemoteKubeConfigExtension\<close>

text \<open>
  Modelled from the spec: the types \<open>client.DNS\<close> and \<open>client.Routing\<close> of the remote
  payload are declared outside the source files; these are the fields the merge reads
  (section 6, remote override payload). \<open>LocalIP\<close> and \<open>RemoteIP\<close> are the bytes that the
  conversion \<open>iputil.IPKey(...)\<close> turns into a string.
\<close>

record DNS =
  LocalIP :: string
  RemoteIP :: string
  ExcludeSuffixes :: "string list"
  IncludeSuffixes :: "string list"
  Excludes :: "string list"
  Mappings :: DNSMappings
  LookupTimeout :: "64 word"

record Routing =
  AlsoProxy :: "Subnet option list"
  NeverProxy :: "Subnet option list"

text \<open>The anonymous struct \<open>remote\<close> that the YAML is parsed into.\<close>

record remote_config =
  DNS :: "DNS option"
  Routing :: "Routing option"

text \<open>Lines 348 to 361, on the \<open>DnsConfig\<close> that \<open>kf.DNS\<close> points to.\<close>

definition merge_dns :: "DNS \<Rightarrow> DnsConfig \<Rightarrow> DnsConfig" where
  "merge_dns dns d =
     (let d1 = (if DnsConfig.LocalIP d = [] then d\<lparr>DnsConfig.LocalIP := DNS.LocalIP dns\<rparr> else d);
          d2 = (if DnsConfig.RemoteIP d1 = []
                then d1\<lparr>DnsConfig.RemoteIP := DNS.RemoteIP dns\<rparr> else d1);
          d3 = d2\<lparr>DnsConfig.ExcludeSuffixes :=
                     DnsConfig.ExcludeSuffixes d2 @ DNS.ExcludeSuffixes dns\<rparr>;
          d4 = d3\<lparr>DnsConfig.IncludeSuffixes :=
                     DnsConfig.IncludeSuffixes d3 @ DNS.IncludeSuffixes dns\<rparr>;
          d5 = d4\<lparr>DnsConfig.Excludes := DnsConfig.Excludes d4 @ DNS.Excludes dns\<rparr>;
          d6 = d5\<lparr>DnsConfig.Mappings := DnsConfig.Mappings d5 @ DNS.Mappings dns\<rparr>
      in if DnsConfig.LookupTimeout d6 = 0
         then d6\<lparr>DnsConfig.LookupTimeout := DNS.LookupTimeout dns\<rparr> else d6)"

text \<open>Lines 364 and 365.\<close>

definition merge_routing :: "Routing \<Rightarrow> Kubeconfig \<Rightarrow> Kubeconfig" where
  "merge_routing routing kf =
     (let kf1 = kf\<lparr>KubeconfigExtension.AlsoProxy :=
                     KubeconfigExtension.AlsoProxy kf @ Routing.AlsoProxy routing\<rparr>
      in kf1\<lparr>KubeconfigExtension.NeverProxy :=
                KubeconfigExtension.NeverProxy kf1 @ Routing.NeverProxy routing\<rparr>)"

text \<open>
  The method mutates its receiver and returns an error: the model returns both. The
  first argument is \<open>yaml.Unmarshal\<close> into the zero \<open>remote\<close> struct.
\<close>

definition AddRemoteKubeConfigExtension ::
  "(string \<Rightarrow> error + remote_config) \<Rightarrow> Kubeconfig \<Rightarrow> string \<Rightarrow> error option \<times> Kubeconfig" where
  "AddRemoteKubeConfigExtension yaml_Unmarshal kf cfgYaml =
     (case yaml_Unmarshal cfgYaml of
        Inl err \<Rightarrow> (Some (ErrorfW ''unable to parse remote kubeconfig: %w'' [] err), kf)
      | Inr remote \<Rightarrow>
          let d0 = (case KubeconfigExtension.DNS kf of None \<Rightarrow> DnsConfig_zero | Some d \<Rightarrow> d);
              d1 = (case remote_config.DNS remote of None \<Rightarrow> d0 | Some dns \<Rightarrow> merge_dns dns d0);
              kf1 = kf\<lparr>KubeconfigExtension.DNS := Some d1\<rparr>
          in (None, case Routing remote of None \<Rightarrow> kf1
                    | Some routing \<Rightarrow> merge_routing routing kf1))"

section \<open>pkg/client/cli/daemon/identifier.go\<close>

record Identifier =
  Name :: string
  KubeContext :: string
  Namespace :: string

text \<open>
  \<open>SafeContainerName\<close> is declared in another file of the package; it is the first
  argument.
\<close>

definition NewIdentifier ::
  "(string \<Rightarrow> string) \<Rightarrow> string \<Rightarrow> string \<Rightarrow> string \<Rightarrow> error + Identifier" where
  "NewIdentifier SafeContainerName name contextName namespace =
     (if namespace = [] then Inl (New ''daemon identifier must have a namespace'')
      else
        let name' = (if name = []
                     then (if contextName = [] then ''in-cluster-'' @ namespace
                           else contextName @ ''-'' @ namespace)
                     else name)
        in Inr \<lparr>Identifier.Name = SafeContainerName name', KubeContext = contextName,
                 Identifier.Namespace = namespace\<rparr>)"

definition String :: "Identifier \<Rightarrow> string" where
  "String ident = Identifier.Name ident"

definition InfoFileName :: "Identifier \<Rightarrow> string" where
  "InfoFileName ident = String ident @ ''.json''"

definition ContainerName :: "Identifier \<Rightarrow> string" where
  "ContainerName ident = ''tp-'' @ String ident"

section \<open>pkg/client/cli/daemon/request.go\<close>

subsection \<open>Data\<close>

text \<open>
  A \<open>pflag.Value\<close> is an interface with a \<open>String()\<close> method; some values also
  implement \<open>pflag.SliceValue\<close>, with \<open>GetSlice()\<close>. \<open>Value s\<close> is a value outside
  \<open>SliceValue\<close> whose \<open>String()\<close> is \<open>s\<close>; \<open>SliceValue s vs\<close> is one inside, with
  \<open>String()\<close> giving \<open>s\<close> and \<open>GetSlice()\<close> giving \<open>vs\<close>.
\<close>

datatype pflag_Value = PlainValue string | SliceValue string "string list"

fun Value_String :: "pflag_Value \<Rightarrow> string" where
  "Value_String (PlainValue s) = s"
| "Value_String (SliceValue s vs) = s"

record Flag =
  Name :: string
  Value :: pflag_Value
  DefValue :: string
  Changed :: bool

text \<open>A compiled \<open>*regexp.Regexp\<close>, known by the expression it was compiled from.\<close>

datatype Regexp = Regexp string

text \<open>The fields of \<open>connector.ConnectRequest\<close> that the source files name.\<close>

record ConnectRequest =
  Name :: string
  MappedNamespaces :: "string list"
  AlsoProxy :: "string list"
  NeverProxy :: "string list"
  ManagerNamespace :: string
  KubeFlags :: "(string \<rightharpoonup> string) option"
  Environment :: "(string \<rightharpoonup> string) option"
  IsPodDaemon :: bool

text \<open>
  \<open>Request\<close> embeds \<open>ConnectRequest\<close>. The two maps above and the pointers \<open>Use\<close>,
  \<open>kubeConfig\<close> and \<open>kubeFlagSet\<close> may be nil (\<open>None\<close>). A \<open>pflag.FlagSet\<close> is the list
  of its flags in the order \<open>VisitAll\<close> visits them.
\<close>

record Request = ConnectRequest +
  Docker :: bool
  Use :: "Regexp option"
  Implicit :: bool
  kubeConfig :: "ConfigFlags option"
  kubeFlagSet :: "Flag list option"
  UserDaemonProfilingPort :: "16 word"
  RootDaemonProfilingPort :: "16 word"

text \<open>
  A \<open>cobra.Command\<close>: \<open>Flag\<close> is the lookup \<open>cmd.Flag(name)\<close> (nil when the command has no
  such flag), \<open>requestKey\<close> the value that the command's context holds under
  \<open>requestKey{}\<close>.
\<close>

record Command =
  Flag :: "string \<Rightarrow> Flag option"
  requestKey :: "Request option"

text \<open>
  What the file takes from outside: \<open>os.LookupEnv\<close> (the ambient environment),
  \<open>regexp.Compile\<close>, whose error is a \<open>*syntax.Error\<close> with its code and expression, and
  \<open>slice.AsCSV\<close>.
\<close>

record cli_env =
  LookupEnv :: "string \<rightharpoonup> string"
  regexp_Compile :: "string \<Rightarrow> (string \<times> string) + Regexp"
  AsCSV :: "string list \<Rightarrow> string"

text \<open>
  Modelled from the spec: the names of the global flags are constants of package global,
  which is not among the source files (section 4.2: \<open>--context\<close>, \<open>--docker\<close>, \<open>--use\<close>).
\<close>

definition FlagContext :: string where
  "FlagContext = ''context''"

definition FlagDocker :: string where
  "FlagDocker = ''docker''"

definition FlagUse :: string where
  "FlagUse = ''use''"

subsection \<open>CommitFlags\<close>

text \<open>
  The callback of \<open>VisitAll\<close>, on the \<open>KubeFlags\<close> map: an unchanged flag is skipped; a
  changed one is stored under its name, which panics when the map is nil.
\<close>

definition visit_flag ::
  "cli_env \<Rightarrow> Flag \<Rightarrow> (string \<rightharpoonup> string) option \<Rightarrow> error + (string \<rightharpoonup> string) option" where
  "visit_flag env flag kubeFlags =
     (if Changed flag
      then
        (let v = (case Flag.Value flag of
                    SliceValue s vs \<Rightarrow> AsCSV env vs
                  | PlainValue s \<Rightarrow> s)
         in case kubeFlags of
              None \<Rightarrow> Inl NilMapAssignment
            | Some m \<Rightarrow> Inr (Some (m(Flag.Name flag \<mapsto> v))))
      else Inr kubeFlags)"

fun VisitAll ::
  "cli_env \<Rightarrow> Flag list \<Rightarrow> (string \<rightharpoonup> string) option \<Rightarrow> error + (string \<rightharpoonup> string) option" where
  "VisitAll env [] kubeFlags = Inr kubeFlags"
| "VisitAll env (flag # flags) kubeFlags =
     (case visit_flag env flag kubeFlags of
        Inl err \<Rightarrow> Inl err
      | Inr kubeFlags' \<Rightarrow> VisitAll env flags kubeFlags')"

definition addEnv :: "cli_env \<Rightarrow> string \<Rightarrow> (string \<rightharpoonup> string) \<Rightarrow> (string \<rightharpoonup> string)" where
  "addEnv env key environment =
     (case LookupEnv env key of
        Some v \<Rightarrow> environment(key \<mapsto> v)
      | None \<Rightarrow> environment((''-'' @ key) \<mapsto> []))"

definition addKubeconfigEnv :: "cli_env \<Rightarrow> Request \<Rightarrow> Request" where
  "addKubeconfigEnv env cr =
     cr\<lparr>Environment :=
          Some (addEnv env ''GOOGLE_APPLICATION_CREDENTIALS''
                 (addEnv env ''KUBECONFIG'' Map.empty))\<rparr>"

text \<open>
  \<open>strconv.ParseBool\<close>, with its error dropped as the source drops it: the value is true
  for the six spellings of true and false for anything else.
\<close>

definition ParseBool :: "string \<Rightarrow> bool" where
  "ParseBool str = (str \<in> set [''1'', ''t'', ''T'', ''TRUE'', ''true'', ''True''])"

text \<open>
  The three blocks of \<open>setGlobalConnectFlags\<close>. The method mutates the request and
  returns an error: the model returns both, the request as the mutation left it.
\<close>

definition set_context :: "Command \<Rightarrow> Request \<Rightarrow> error + Request" where
  "set_context cmd cr =
     (case Flag cmd FlagContext of
        None \<Rightarrow> Inr cr
      | Some contextFlag \<Rightarrow>
          if Changed contextFlag
          then
            (let cn = Value_String (Flag.Value contextFlag) in
             case KubeFlags cr of
               None \<Rightarrow> Inl NilMapAssignment
             | Some m \<Rightarrow>
                 (case kubeConfig cr of
                    None \<Rightarrow> Inl NilDereference
                  | Some cfg \<Rightarrow>
                      Inr (cr\<lparr>KubeFlags := Some (m(FlagContext \<mapsto> cn)),
                              kubeConfig := Some (cfg\<lparr>ConfigFlags.Context := Some cn\<rparr>)\<rparr>)))
          else Inr cr)"

definition set_docker :: "Command \<Rightarrow> Request \<Rightarrow> Request" where
  "set_docker cmd cr =
     (case Flag cmd FlagDocker of
        None \<Rightarrow> cr
      | Some dockerFlag \<Rightarrow>
          if Changed dockerFlag
          then cr\<lparr>Docker := ParseBool (Value_String (Flag.Value dockerFlag))\<rparr>
          else cr)"

definition set_use :: "cli_env \<Rightarrow> Command \<Rightarrow> Request \<Rightarrow> error option \<times> Request" where
  "set_use env cmd cr =
     (case Flag cmd FlagUse of
        None \<Rightarrow> (None, cr)
      | Some useFlag \<Rightarrow>
          if Changed useFlag
          then
            (case regexp_Compile env (Value_String (Flag.Value useFlag)) of
               Inl (code, expr) \<Rightarrow> (Some (SyntaxError code expr), cr\<lparr>Use := None\<rparr>)
             | Inr re \<Rightarrow> (None, cr\<lparr>Use := Some re\<rparr>))
          else (None, cr))"

definition setGlobalConnectFlags :: "cli_env \<Rightarrow> Command \<Rightarrow> Request \<Rightarrow> error option \<times> Request" where
  "setGlobalConnectFlags env cmd cr =
     (case set_context cmd cr of
        Inl err \<Rightarrow> (Some err, cr)
      | Inr cr1 \<Rightarrow> set_use env cmd (set_docker cmd cr1))"

text \<open>
  \<open>CommitFlags\<close> mutates the request and, when it succeeds, stores it in the command's
  context: the model returns the error, the request and the command.
\<close>

definition CommitFlags ::
  "cli_env \<Rightarrow> Command \<Rightarrow> Request \<Rightarrow> error option \<times> Request \<times> Command" where
  "CommitFlags env cmd cr =
     (case kubeFlagSet cr of
        None \<Rightarrow> (Some NilDereference, cr, cmd)
      | Some flags \<Rightarrow>
          (case VisitAll env flags (KubeFlags cr) of
             Inl err \<Rightarrow> (Some err, cr, cmd)
           | Inr kubeFlags \<Rightarrow>
               (case setGlobalConnectFlags env cmd
                       (addKubeconfigEnv env (cr\<lparr>KubeFlags := kubeFlags\<rparr>)) of
                  (Some err, cr') \<Rightarrow> (Some err, cr', cmd)
                | (None, cr') \<Rightarrow> (None, cr', cmd\<lparr>requestKey := Some cr'\<rparr>))))"

section \<open>pkg/client/cli/connect/daemon.go\<close>

text \<open>
  The functions of this file act on the world outside the process. Each call they make
  that changes it is an \<open>effect\<close>, and the model returns the effects in the order of the
  calls, made or attempted, next to the result.
\<close>

datatype effect =
    Fprintln string
  | MkdirAll string
  | OpenFile string
  | StartInBackgroundAsRoot "string list"

text \<open>
  What the world answers: the user daemon client kept in the context (nil, or a client
  with its \<open>Remote()\<close>), the request kept in the context, the environment's
  \<open>UserDaemonAddress\<close>, the paths, and the results of the probes and calls of packages
  socket, os, proc and rpc, and of \<open>UserDaemonDisconnect\<close>, which is declared in another
  file of the package. A dialled connection is known by the path dialled.
\<close>

record connect_env =
  GetUserClient :: "bool option"
  GetRequest :: "Request option"
  UserDaemonAddress :: string
  RootDaemonPath :: string
  GetExe :: string
  AppUserLogDir :: string
  AppUserConfigDir :: string
  filepath_Join :: "string \<Rightarrow> string \<Rightarrow> string"
  IsRunning :: "string \<Rightarrow> bool \<times> error option"
  WaitUntilRunning :: "string \<Rightarrow> error option"
  WaitUntilVanishes :: "string \<Rightarrow> error option"
  Dial :: "string \<Rightarrow> error + string"
  Quit :: "string \<Rightarrow> error option"
  os_Stat :: "string \<Rightarrow> error option"
  os_IsNotExist :: "error \<Rightarrow> bool"
  os_MkdirAll :: "string \<Rightarrow> error option"
  os_OpenFile :: "string \<Rightarrow> error option"
  proc_StartInBackgroundAsRoot :: "string list \<Rightarrow> error option"
  UserDaemonDisconnect :: "bool \<Rightarrow> error option"

text \<open>\<open>strconv.Itoa\<close> on the value of a \<open>uint16\<close>: its decimal digits.\<close>

fun Itoa :: "nat \<Rightarrow> string" where
  "Itoa n =
     (if n < 10 then [''0123456789'' ! n]
      else Itoa (n div 10) @ [''0123456789'' ! (n mod 10)])"

declare Itoa.simps [simp del]

definition launchDaemon :: "connect_env \<Rightarrow> Request option \<Rightarrow> error option \<times> effect list" where
  "launchDaemon env cr =
     (let logDir = AppUserLogDir env;
          logFile = filepath_Join env logDir ''daemon.log'';
          args = [GetExe env, ''daemon-foreground'']
                 @ (case cr of
                      None \<Rightarrow> []
                    | Some r \<Rightarrow>
                        if RootDaemonProfilingPort r > 0
                        then [''--pprof'', Itoa (unat (RootDaemonProfilingPort r))] else [])
                 @ [logDir, AppUserConfigDir env];
          start = (\<lambda>effects. (proc_StartInBackgroundAsRoot env args,
                               effects @ [StartInBackgroundAsRoot args]));
          printed = [Fprintln ''Launching Telepresence Root Daemon'']
      in case os_Stat env logFile of
           None \<Rightarrow> start printed
         | Some err \<Rightarrow>
             if \<not> os_IsNotExist env err then (Some err, printed)
             else
               (case os_MkdirAll env logDir of
                  Some err \<Rightarrow> (Some err, printed @ [MkdirAll logDir])
                | None \<Rightarrow>
                    (case os_OpenFile env logFile of
                       Some err \<Rightarrow> (Some err, printed @ [MkdirAll logDir, OpenFile logFile])
                     | None \<Rightarrow> start (printed @ [MkdirAll logDir, OpenFile logFile]))))"

definition ensureRootDaemonRunning :: "connect_env \<Rightarrow> error option \<times> effect list" where
  "ensureRootDaemonRunning env =
     (if GetUserClient env = Some True then (None, [])
      else
        let cr = GetRequest env in
        if (case cr of None \<Rightarrow> False | Some r \<Rightarrow> Docker r) then (None, [])
        else if UserDaemonAddress env \<noteq> [] then (None, [])
        else
          (case IsRunning env (RootDaemonPath env) of
             (running, Some err) \<Rightarrow> (Some err, [])
           | (True, None) \<Rightarrow> (None, [])
           | (False, None) \<Rightarrow>
               (case launchDaemon env cr of
                  (Some err, effects) \<Rightarrow>
                    (Some (ErrorfW ''failed to launch the daemon service: %w'' [] err), effects)
                | (None, effects) \<Rightarrow>
                    (case WaitUntilRunning env (RootDaemonPath env) of
                       Some err \<Rightarrow>
                         (Some (ErrorfW ''daemon service did not start: %w'' [] err), effects)
                     | None \<Rightarrow> (None, effects)))))"

text \<open>
  \<open>Disconnect\<close>: the variable \<open>err\<close> is assigned by each call in turn, and its last value
  is returned.
\<close>

definition Disconnect :: "connect_env \<Rightarrow> bool \<Rightarrow> error option" where
  "Disconnect env quitDaemons =
     (let err = UserDaemonDisconnect env quitDaemons;
          err = (case err of
                   None \<Rightarrow> None
                 | Some e \<Rightarrow> if errors_Is e ErrNoUserDaemon then None else Some e)
      in case err of
           Some e \<Rightarrow> Some (ErrorfW ''error when quitting connector: %w'' [] e)
         | None \<Rightarrow>
             if quitDaemons
             then
               (case WaitUntilVanishes env (RootDaemonPath env) of
                  None \<Rightarrow> None
                | Some timeout \<Rightarrow>
                    (case Dial env (RootDaemonPath env) of
                       Inl e \<Rightarrow> Some e
                     | Inr conn \<Rightarrow>
                         (case Quit env conn of
                            Some e \<Rightarrow> Some (ErrorfW ''error when quitting root daemon: %w'' [] e)
                          | None \<Rightarrow> None)))
             else None)"

section \<open>Example inputs\<close>

text \<open>
  Concrete inputs at which the theorems below are instantiated: a remote payload and its
  parser, a local configuration, a kubeconfig with one context and one cluster, a bound
  request with its command and flags, and a world for the daemon functions.
\<close>

definition example_remote :: remote_config where
  "example_remote =
     \<lparr>remote_config.DNS = Some
        \<lparr>DNS.LocalIP = ''10.0.0.53'', DNS.RemoteIP = ''10.96.0.10'',
         DNS.ExcludeSuffixes = [''.com''], DNS.IncludeSuffixes = [''.local''],
         DNS.Excludes = [''skip''],
         DNS.Mappings = [Some \<lparr>DNSMapping.Name = ''a'', DNSMapping.AliasFor = ''b''\<rparr>],
         DNS.LookupTimeout = 7\<rparr>,
      Routing = Some \<lparr>Routing.AlsoProxy = [Some ''10.1.0.0/16''],
                      Routing.NeverProxy = [Some ''10.2.0.0/16'']\<rparr>\<rparr>"

definition example_yaml_Unmarshal :: "string \<Rightarrow> error + remote_config" where
  "example_yaml_Unmarshal cfgYaml =
     (if cfgYaml = ''payload'' then Inr example_remote else Inl (New ''yaml: unmarshal errors''))"

definition example_kubeconfig :: "DnsConfig option \<Rightarrow> Kubeconfig" where
  "example_kubeconfig dns =
     \<lparr>KubeconfigExtension.DNS = dns,
      KubeconfigExtension.AlsoProxy = [Some ''192.168.0.0/24''],
      KubeconfigExtension.NeverProxy = [],
      KubeconfigExtension.Manager = Some \<lparr>ManagerConfig.Namespace = ''ambassador''\<rparr>,
      Kubeconfig.Namespace = ''default'', Kubeconfig.Context = ''dev'',
      Kubeconfig.Server = ''https://localhost:6443'', Kubeconfig.FlagMap = Map.empty,
      Kubeconfig.ConfigFlags = None, Kubeconfig.RestConfig = None\<rparr>"

definition example_local_dns :: DnsConfig where
  "example_local_dns =
     \<lparr>DnsConfig.LocalIP = ''127.0.0.53'', DnsConfig.RemoteIP = [],
      DnsConfig.ExcludeSuffixes = [''.org''], DnsConfig.IncludeSuffixes = [],
      DnsConfig.Excludes = [], DnsConfig.Mappings = [], DnsConfig.LookupTimeout = 0\<rparr>"

definition example_api_config :: api_Config where
  "example_api_config =
     \<lparr>Contexts = [(''dev'', Some \<lparr>Cluster = ''kind''\<rparr>)],
      Clusters = [(''kind'', Some \<lparr>api_Cluster.Server = ''https://localhost:6443'',
                                   Extensions = [(''telepresence.io'', Unknown (Some ''manager-z''))]\<rparr>)],
      CurrentContext = ''dev''\<rparr>"

definition example_client_env :: client_env where
  "example_client_env =
     \<lparr>ToRawKubeConfigLoader =
        (\<lambda>configFlags. \<lparr>RawConfig = Inr example_api_config,
                         ClientConfig.Namespace = Inr ''default'',
                         ClientConfig = Inr \<lparr>Host = ''https://localhost:6443''\<rparr>\<rparr>),
      json_Unmarshal =
        (\<lambda>raw. if raw = ''manager-z''
               then Inr \<lparr>KubeconfigExtension.DNS = None, KubeconfigExtension.AlsoProxy = [],
                         KubeconfigExtension.NeverProxy = [],
                         Manager = Some \<lparr>ManagerConfig.Namespace = ''z''\<rparr>\<rparr>
               else Inl (New ''unexpected end of JSON input'')),
      Env_ManagerNamespace = ''y'',
      DefaultManagerNamespace = ''ambassador''\<rparr>"

definition example_ConfigFlags :: ConfigFlags where
  "example_ConfigFlags = \<lparr>ConfigFlags.Context = Some [], ConfigFlags.Namespace = Some []\<rparr>"

definition example_kube_flags :: "Flag list" where
  "example_kube_flags =
     [\<lparr>Flag.Name = ''as-group'', Flag.Value = SliceValue ''[dev,ops]'' [''dev'', ''ops''],
       DefValue = ''[]'', Changed = True\<rparr>,
      \<lparr>Flag.Name = ''kubeconfig'', Flag.Value = PlainValue ''/tmp/kubeconfig'',
       DefValue = [], Changed = True\<rparr>,
      \<lparr>Flag.Name = ''request-timeout'', Flag.Value = PlainValue ''0'',
       DefValue = ''0'', Changed = False\<rparr>]"

definition example_request :: Request where
  "example_request =
     \<lparr>ConnectRequest.Name = [], MappedNamespaces = [], ConnectRequest.AlsoProxy = [],
      ConnectRequest.NeverProxy = [], ManagerNamespace = [],
      KubeFlags = Some Map.empty, Environment = None, IsPodDaemon = False,
      Docker = False, Use = None, Implicit = False,
      kubeConfig = Some example_ConfigFlags, kubeFlagSet = Some example_kube_flags,
      UserDaemonProfilingPort = 0, RootDaemonProfilingPort = 0\<rparr>"

definition example_command :: "string \<Rightarrow> Command" where
  "example_command use =
     \<lparr>Flag = (\<lambda>name.
          if name = ''use''
          then Some \<lparr>Flag.Name = ''use'', Flag.Value = PlainValue use, DefValue = [],
                     Changed = True\<rparr>
          else if name = ''context''
          then Some \<lparr>Flag.Name = ''context'', Flag.Value = PlainValue ''prod'', DefValue = [],
                     Changed = True\<rparr>
          else if name = ''docker''
          then Some \<lparr>Flag.Name = ''docker'', Flag.Value = PlainValue ''false'',
                     DefValue = ''false'', Changed = False\<rparr>
          else None),
      requestKey = None\<rparr>"

definition example_cli_env :: "(string \<rightharpoonup> string) \<Rightarrow> cli_env" where
  "example_cli_env ambient =
     \<lparr>LookupEnv = ambient,
      regexp_Compile =
        (\<lambda>expr. if expr = ''('' then Inl (''missing closing )'', ''('') else Inr (Regexp expr)),
      AsCSV = (\<lambda>vs. foldr (\<lambda>v csv. if csv = [] then v else v @ '','' @ csv) vs [])\<rparr>"

definition example_SafeContainerName :: "string \<Rightarrow> string" where
  "example_SafeContainerName name =
     map (\<lambda>c. if c = CHR ''/'' \<or> c = CHR '':'' then CHR ''-'' else c) name"

definition example_connect_env :: "bool \<Rightarrow> error + string \<Rightarrow> error option \<Rightarrow> connect_env" where
  "example_connect_env running dial quit =
     \<lparr>GetUserClient = None,
      GetRequest = Some example_request,
      UserDaemonAddress = [],
      RootDaemonPath = ''/var/run/telepresence-daemon.socket'',
      GetExe = ''/usr/local/bin/telepresence'',
      AppUserLogDir = ''/home/dev/.cache/telepresence/logs'',
      AppUserConfigDir = ''/home/dev/.config/telepresence'',
      filepath_Join = (\<lambda>dir file. dir @ ''/'' @ file),
      IsRunning = (\<lambda>path. (running, None)),
      WaitUntilRunning = (\<lambda>path. None),
      WaitUntilVanishes =
        (\<lambda>path. if running then Some (New ''timeout while waiting for root daemon to exit'')
                else None),
      Dial = (\<lambda>path. dial),
      Quit = (\<lambda>conn. quit),
      os_Stat = (\<lambda>path. None),
      os_IsNotExist = (\<lambda>err. False),
      os_MkdirAll = (\<lambda>path. None),
      os_OpenFile = (\<lambda>path. None),
      proc_StartInBackgroundAsRoot = (\<lambda>args. None),
      UserDaemonDisconnect = (\<lambda>quitDaemons. Some ErrNoUserDaemon)\<rparr>"

section \<open>Properties of DNSMappings.FromRPC and DNSMappings.ToRPC\<close>

text \<open>On a list without a nil entry each conversion returns, and is a map over the list.\<close>

lemma FromRPC_no_nil:
  "None \<notin> set rpcMappings \<Longrightarrow>
     FromRPC rpcMappings =
       Inr (map (map_option (\<lambda>m. \<lparr>DNSMapping.Name = rpc_DNSMapping.Name m,
                                   DNSMapping.AliasFor = rpc_DNSMapping.AliasFor m\<rparr>)) rpcMappings)"
proof (induction rpcMappings)
  case Nil
  show ?case by simp
next
  case (Cons a rpcMappings)
  then obtain m where "a = Some m" by (cases a) auto
  with Cons show ?case by simp
qed

lemma ToRPC_no_nil:
  "None \<notin> set d \<Longrightarrow>
     ToRPC d =
       Inr (map (map_option (\<lambda>m. \<lparr>rpc_DNSMapping.Name = DNSMapping.Name m,
                                   rpc_DNSMapping.AliasFor = DNSMapping.AliasFor m\<rparr>)) d)"
proof (induction d)
  case Nil
  show ?case by simp
next
  case (Cons a d)
  then obtain m where "a = Some m" by (cases a) auto
  with Cons show ?case by simp
qed

text \<open>
  Claim C10. For every list of RPC DNS mappings (a list whose entries are mappings, none
  a nil pointer), \<open>FromRPC\<close> returns, \<open>ToRPC\<close> on its result returns, and the list
  obtained has the length of the original and, entry by entry and in the same order, the
  same \<open>Name\<close> and the same \<open>AliasFor\<close>.
\<close>

theorem FromRPC_ToRPC_roundtrip:
  assumes "None \<notin> set rpcMappings"
  shows "\<exists>d out. FromRPC rpcMappings = Inr d \<and> ToRPC d = Inr out
           \<and> length out = length rpcMappings
           \<and> None \<notin> set out
           \<and> map (map_option rpc_DNSMapping.Name) out
               = map (map_option rpc_DNSMapping.Name) rpcMappings
           \<and> map (map_option rpc_DNSMapping.AliasFor) out
               = map (map_option rpc_DNSMapping.AliasFor) rpcMappings"
proof -
  let ?d = "map (map_option (\<lambda>m. \<lparr>DNSMapping.Name = rpc_DNSMapping.Name m,
                                   DNSMapping.AliasFor = rpc_DNSMapping.AliasFor m\<rparr>)) rpcMappings"
  let ?out = "map (map_option (\<lambda>m. \<lparr>rpc_DNSMapping.Name = DNSMapping.Name m,
                                   rpc_DNSMapping.AliasFor = DNSMapping.AliasFor m\<rparr>)) ?d"
  have d: "FromRPC rpcMappings = Inr ?d" using assms by (rule FromRPC_no_nil)
  have "None \<notin> set ?d" using assms by auto
  then have out: "ToRPC ?d = Inr ?out" by (rule ToRPC_no_nil)
  have nn: "None \<notin> set ?out" using assms by auto
  have n: "map (map_option rpc_DNSMapping.Name) ?out = map (map_option rpc_DNSMapping.Name) rpcMappings"
    by (simp add: option.map_comp comp_def)
  have a: "map (map_option rpc_DNSMapping.AliasFor) ?out = map (map_option rpc_DNSMapping.AliasFor) rpcMappings"
    by (simp add: option.map_comp comp_def)
  have l: "length ?out = length rpcMappings" by simp
  from d out l nn n a show ?thesis by blast
qed

text \<open>The round trip on a list of two mappings.\<close>

theorem FromRPC_ToRPC_roundtrip_witness:
  "\<exists>d out. FromRPC [Some \<lparr>rpc_DNSMapping.Name = ''a.example'', rpc_DNSMapping.AliasFor = ''b.svc''\<rparr>,
                     Some \<lparr>rpc_DNSMapping.Name = ''c'', rpc_DNSMapping.AliasFor = ''''\<rparr>] = Inr d
     \<and> ToRPC d = Inr out \<and> length out = 2
     \<and> map (map_option rpc_DNSMapping.Name) out = [Some ''a.example'', Some ''c'']
     \<and> map (map_option rpc_DNSMapping.AliasFor) out = [Some ''b.svc'', Some '''']"
  using FromRPC_ToRPC_roundtrip
    [of "[Some \<lparr>rpc_DNSMapping.Name = ''a.example'', rpc_DNSMapping.AliasFor = ''b.svc''\<rparr>,
          Some \<lparr>rpc_DNSMapping.Name = ''c'', rpc_DNSMapping.AliasFor = ''''\<rparr>]"]
  by simp

section \<open>Properties of Kubeconfig.AddRemoteKubeConfigExtension\<close>

text \<open>The fields of the merged \<open>DnsConfig\<close> and of the configuration after the routing merge.\<close>

lemma merge_dns_fields [simp]:
  "DnsConfig.LocalIP (merge_dns dns d) = (if DnsConfig.LocalIP d = [] then DNS.LocalIP dns else DnsConfig.LocalIP d)"
  "DnsConfig.RemoteIP (merge_dns dns d) = (if DnsConfig.RemoteIP d = [] then DNS.RemoteIP dns else DnsConfig.RemoteIP d)"
  "DnsConfig.LookupTimeout (merge_dns dns d) = (if DnsConfig.LookupTimeout d = 0 then DNS.LookupTimeout dns else DnsConfig.LookupTimeout d)"
  "DnsConfig.ExcludeSuffixes (merge_dns dns d) = DnsConfig.ExcludeSuffixes d @ DNS.ExcludeSuffixes dns"
  "DnsConfig.IncludeSuffixes (merge_dns dns d) = DnsConfig.IncludeSuffixes d @ DNS.IncludeSuffixes dns"
  "DnsConfig.Excludes (merge_dns dns d) = DnsConfig.Excludes d @ DNS.Excludes dns"
  "DnsConfig.Mappings (merge_dns dns d) = DnsConfig.Mappings d @ DNS.Mappings dns"
  by (simp_all add: merge_dns_def Let_def)

lemma merge_routing_fields [simp]:
  "KubeconfigExtension.DNS (merge_routing routing kf) = KubeconfigExtension.DNS kf"
  "KubeconfigExtension.AlsoProxy (merge_routing routing kf) = KubeconfigExtension.AlsoProxy kf @ Routing.AlsoProxy routing"
  "KubeconfigExtension.NeverProxy (merge_routing routing kf) = KubeconfigExtension.NeverProxy kf @ Routing.NeverProxy routing"
  by (simp_all add: merge_routing_def Let_def)

text \<open>What one successful merge leaves in the receiver.\<close>

lemma AddRemote_parsed:
  assumes "yaml_Unmarshal cfgYaml = Inr remote"
  shows "\<exists>kf' d'. AddRemoteKubeConfigExtension yaml_Unmarshal kf cfgYaml = (None, kf')
           \<and> KubeconfigExtension.DNS kf' = Some d'
           \<and> d' = (let d0 = (case KubeconfigExtension.DNS kf of None \<Rightarrow> DnsConfig_zero | Some d \<Rightarrow> d)
                   in case remote_config.DNS remote of None \<Rightarrow> d0 | Some dns \<Rightarrow> merge_dns dns d0)
           \<and> KubeconfigExtension.AlsoProxy kf' = KubeconfigExtension.AlsoProxy kf
                @ (case Routing remote of None \<Rightarrow> [] | Some r \<Rightarrow> Routing.AlsoProxy r)
           \<and> KubeconfigExtension.NeverProxy kf' = KubeconfigExtension.NeverProxy kf
                @ (case Routing remote of None \<Rightarrow> [] | Some r \<Rightarrow> Routing.NeverProxy r)"
  using assms
  by (cases "Routing remote") (simp_all add: AddRemoteKubeConfigExtension_def Let_def)

text \<open>
  Claim C7. Merging a remote payload that parses into a local configuration, and then
  merging the same payload into the result, succeeds both times; the scalar fields
  \<open>LocalIP\<close>, \<open>RemoteIP\<close> and \<open>LookupTimeout\<close> after the second merge are those after
  the first; and every list field (\<open>ExcludeSuffixes\<close>, \<open>IncludeSuffixes\<close>, \<open>Excludes\<close>,
  \<open>Mappings\<close>, \<open>AlsoProxy\<close>, \<open>NeverProxy\<close>) after each merge is the list before that merge
  followed by the remote entries, so that the earlier list is a prefix of the later one:
  no entry is removed or reordered.
\<close>

theorem AddRemoteKubeConfigExtension_twice:
  assumes parse: "yaml_Unmarshal cfgYaml = Inr remote"
  shows "\<exists>kf1 kf2 d1 d2.
           AddRemoteKubeConfigExtension yaml_Unmarshal kf cfgYaml = (None, kf1)
         \<and> AddRemoteKubeConfigExtension yaml_Unmarshal kf1 cfgYaml = (None, kf2)
         \<and> KubeconfigExtension.DNS kf1 = Some d1 \<and> KubeconfigExtension.DNS kf2 = Some d2
         \<and> DnsConfig.LocalIP d2 = DnsConfig.LocalIP d1
         \<and> DnsConfig.RemoteIP d2 = DnsConfig.RemoteIP d1
         \<and> DnsConfig.LookupTimeout d2 = DnsConfig.LookupTimeout d1
         \<and> (let d0 = (case KubeconfigExtension.DNS kf of None \<Rightarrow> DnsConfig_zero | Some d \<Rightarrow> d)
             in DnsConfig.ExcludeSuffixes d1 = DnsConfig.ExcludeSuffixes d0 @ (case remote_config.DNS remote of None \<Rightarrow> [] | Some dns \<Rightarrow> DNS.ExcludeSuffixes dns)
              \<and> DnsConfig.ExcludeSuffixes d2 = DnsConfig.ExcludeSuffixes d1 @ (case remote_config.DNS remote of None \<Rightarrow> [] | Some dns \<Rightarrow> DNS.ExcludeSuffixes dns)
              \<and> DnsConfig.IncludeSuffixes d1 = DnsConfig.IncludeSuffixes d0 @ (case remote_config.DNS remote of None \<Rightarrow> [] | Some dns \<Rightarrow> DNS.IncludeSuffixes dns)
              \<and> DnsConfig.IncludeSuffixes d2 = DnsConfig.IncludeSuffixes d1 @ (case remote_config.DNS remote of None \<Rightarrow> [] | Some dns \<Rightarrow> DNS.IncludeSuffixes dns)
              \<and> DnsConfig.Excludes d1 = DnsConfig.Excludes d0 @ (case remote_config.DNS remote of None \<Rightarrow> [] | Some dns \<Rightarrow> DNS.Excludes dns)
              \<and> DnsConfig.Excludes d2 = DnsConfig.Excludes d1 @ (case remote_config.DNS remote of None \<Rightarrow> [] | Some dns \<Rightarrow> DNS.Excludes dns)
              \<and> DnsConfig.Mappings d1 = DnsConfig.Mappings d0 @ (case remote_config.DNS remote of None \<Rightarrow> [] | Some dns \<Rightarrow> DNS.Mappings dns)
              \<and> DnsConfig.Mappings d2 = DnsConfig.Mappings d1 @ (case remote_config.DNS remote of None \<Rightarrow> [] | Some dns \<Rightarrow> DNS.Mappings dns))
         \<and> KubeconfigExtension.AlsoProxy kf1 = KubeconfigExtension.AlsoProxy kf @ (case Routing remote of None \<Rightarrow> [] | Some routing \<Rightarrow> Routing.AlsoProxy routing)
         \<and> KubeconfigExtension.AlsoProxy kf2 = KubeconfigExtension.AlsoProxy kf1 @ (case Routing remote of None \<Rightarrow> [] | Some routing \<Rightarrow> Routing.AlsoProxy routing)
         \<and> KubeconfigExtension.NeverProxy kf1 = KubeconfigExtension.NeverProxy kf @ (case Routing remote of None \<Rightarrow> [] | Some routing \<Rightarrow> Routing.NeverProxy routing)
         \<and> KubeconfigExtension.NeverProxy kf2 = KubeconfigExtension.NeverProxy kf1 @ (case Routing remote of None \<Rightarrow> [] | Some routing \<Rightarrow> Routing.NeverProxy routing)
         \<and> prefix (DnsConfig.ExcludeSuffixes d1) (DnsConfig.ExcludeSuffixes d2)
         \<and> prefix (DnsConfig.IncludeSuffixes d1) (DnsConfig.IncludeSuffixes d2)
         \<and> prefix (DnsConfig.Excludes d1) (DnsConfig.Excludes d2)
         \<and> prefix (DnsConfig.Mappings d1) (DnsConfig.Mappings d2)
         \<and> prefix (KubeconfigExtension.AlsoProxy kf1) (KubeconfigExtension.AlsoProxy kf2)
         \<and> prefix (KubeconfigExtension.NeverProxy kf1) (KubeconfigExtension.NeverProxy kf2)"
proof -
  from AddRemote_parsed [where yaml_Unmarshal = yaml_Unmarshal and cfgYaml = cfgYaml and kf = kf, OF parse]
  obtain kf1 d1 where
    m1: "AddRemoteKubeConfigExtension yaml_Unmarshal kf cfgYaml = (None, kf1)"
    and dns1: "KubeconfigExtension.DNS kf1 = Some d1"
    and d1: "d1 = (let d0 = (case KubeconfigExtension.DNS kf of None \<Rightarrow> DnsConfig_zero | Some d \<Rightarrow> d)
                   in case remote_config.DNS remote of None \<Rightarrow> d0 | Some dns \<Rightarrow> merge_dns dns d0)"
    and a1: "KubeconfigExtension.AlsoProxy kf1 = KubeconfigExtension.AlsoProxy kf
                @ (case Routing remote of None \<Rightarrow> [] | Some r \<Rightarrow> Routing.AlsoProxy r)"
    and n1: "KubeconfigExtension.NeverProxy kf1 = KubeconfigExtension.NeverProxy kf
                @ (case Routing remote of None \<Rightarrow> [] | Some r \<Rightarrow> Routing.NeverProxy r)"
    by blast
  from AddRemote_parsed [where yaml_Unmarshal = yaml_Unmarshal and cfgYaml = cfgYaml and kf = kf1, OF parse] dns1
  obtain kf2 d2 where
    m2: "AddRemoteKubeConfigExtension yaml_Unmarshal kf1 cfgYaml = (None, kf2)"
    and dns2: "KubeconfigExtension.DNS kf2 = Some d2"
    and d2: "d2 = (case remote_config.DNS remote of None \<Rightarrow> d1 | Some dns \<Rightarrow> merge_dns dns d1)"
    and a2: "KubeconfigExtension.AlsoProxy kf2 = KubeconfigExtension.AlsoProxy kf1
                @ (case Routing remote of None \<Rightarrow> [] | Some r \<Rightarrow> Routing.AlsoProxy r)"
    and n2: "KubeconfigExtension.NeverProxy kf2 = KubeconfigExtension.NeverProxy kf1
                @ (case Routing remote of None \<Rightarrow> [] | Some r \<Rightarrow> Routing.NeverProxy r)"
    by auto
  have scalars: "DnsConfig.LocalIP d2 = DnsConfig.LocalIP d1
      \<and> DnsConfig.RemoteIP d2 = DnsConfig.RemoteIP d1
      \<and> DnsConfig.LookupTimeout d2 = DnsConfig.LookupTimeout d1"
    unfolding d2 d1 by (cases "remote_config.DNS remote") (simp_all add: Let_def)
  have lists: "(let d0 = (case KubeconfigExtension.DNS kf of None \<Rightarrow> DnsConfig_zero | Some d \<Rightarrow> d)
             in DnsConfig.ExcludeSuffixes d1 = DnsConfig.ExcludeSuffixes d0 @ (case remote_config.DNS remote of None \<Rightarrow> [] | Some dns \<Rightarrow> DNS.ExcludeSuffixes dns)
              \<and> DnsConfig.ExcludeSuffixes d2 = DnsConfig.ExcludeSuffixes d1 @ (case remote_config.DNS remote of None \<Rightarrow> [] | Some dns \<Rightarrow> DNS.ExcludeSuffixes dns)
              \<and> DnsConfig.IncludeSuffixes d1 = DnsConfig.IncludeSuffixes d0 @ (case remote_config.DNS remote of None \<Rightarrow> [] | Some dns \<Rightarrow> DNS.IncludeSuffixes dns)
              \<and> DnsConfig.IncludeSuffixes d2 = DnsConfig.IncludeSuffixes d1 @ (case remote_config.DNS remote of None \<Rightarrow> [] | Some dns \<Rightarrow> DNS.IncludeSuffixes dns)
              \<and> DnsConfig.Excludes d1 = DnsConfig.Excludes d0 @ (case remote_config.DNS remote of None \<Rightarrow> [] | Some dns \<Rightarrow> DNS.Excludes dns)
              \<and> DnsConfig.Excludes d2 = DnsConfig.Excludes d1 @ (case remote_config.DNS remote of None \<Rightarrow> [] | Some dns \<Rightarrow> DNS.Excludes dns)
              \<and> DnsConfig.Mappings d1 = DnsConfig.Mappings d0 @ (case remote_config.DNS remote of None \<Rightarrow> [] | Some dns \<Rightarrow> DNS.Mappings dns)
              \<and> DnsConfig.Mappings d2 = DnsConfig.Mappings d1 @ (case remote_config.DNS remote of None \<Rightarrow> [] | Some dns \<Rightarrow> DNS.Mappings dns))"
    unfolding d2 d1 by (cases "remote_config.DNS remote") (simp_all add: Let_def)
  then have prefixes: "prefix (DnsConfig.ExcludeSuffixes d1) (DnsConfig.ExcludeSuffixes d2)
         \<and> prefix (DnsConfig.IncludeSuffixes d1) (DnsConfig.IncludeSuffixes d2)
         \<and> prefix (DnsConfig.Excludes d1) (DnsConfig.Excludes d2)
         \<and> prefix (DnsConfig.Mappings d1) (DnsConfig.Mappings d2)"
    by (simp add: Let_def)
  have routes: "KubeconfigExtension.AlsoProxy kf1 = KubeconfigExtension.AlsoProxy kf @ (case Routing remote of None \<Rightarrow> [] | Some routing \<Rightarrow> Routing.AlsoProxy routing)
         \<and> KubeconfigExtension.AlsoProxy kf2 = KubeconfigExtension.AlsoProxy kf1 @ (case Routing remote of None \<Rightarrow> [] | Some routing \<Rightarrow> Routing.AlsoProxy routing)
         \<and> KubeconfigExtension.NeverProxy kf1 = KubeconfigExtension.NeverProxy kf @ (case Routing remote of None \<Rightarrow> [] | Some routing \<Rightarrow> Routing.NeverProxy routing)
         \<and> KubeconfigExtension.NeverProxy kf2 = KubeconfigExtension.NeverProxy kf1 @ (case Routing remote of None \<Rightarrow> [] | Some routing \<Rightarrow> Routing.NeverProxy routing)"
    using a1 a2 n1 n2 by simp
  have rprefixes: "prefix (KubeconfigExtension.AlsoProxy kf1) (KubeconfigExtension.AlsoProxy kf2)
         \<and> prefix (KubeconfigExtension.NeverProxy kf1) (KubeconfigExtension.NeverProxy kf2)"
    using a2 n2 by simp
  from m1 m2 dns1 dns2 scalars lists routes prefixes rprefixes show ?thesis by blast
qed

text \<open>Two merges of the example payload into the example configuration.\<close>

theorem AddRemoteKubeConfigExtension_twice_witness:
  "\<exists>kf1 kf2 d1 d2.
       AddRemoteKubeConfigExtension example_yaml_Unmarshal
         (example_kubeconfig (Some example_local_dns)) ''payload'' = (None, kf1)
     \<and> AddRemoteKubeConfigExtension example_yaml_Unmarshal kf1 ''payload'' = (None, kf2)
     \<and> KubeconfigExtension.DNS kf1 = Some d1 \<and> KubeconfigExtension.DNS kf2 = Some d2
     \<and> DnsConfig.LocalIP d2 = DnsConfig.LocalIP d1
     \<and> DnsConfig.RemoteIP d2 = DnsConfig.RemoteIP d1
     \<and> DnsConfig.LookupTimeout d2 = DnsConfig.LookupTimeout d1
     \<and> DnsConfig.ExcludeSuffixes d1 = [''.org'', ''.com'']
     \<and> DnsConfig.ExcludeSuffixes d2 = [''.org'', ''.com'', ''.com'']
     \<and> DnsConfig.Mappings d2
         = [Some \<lparr>DNSMapping.Name = ''a'', DNSMapping.AliasFor = ''b''\<rparr>,
            Some \<lparr>DNSMapping.Name = ''a'', DNSMapping.AliasFor = ''b''\<rparr>]
     \<and> KubeconfigExtension.AlsoProxy kf1 = [Some ''192.168.0.0/24'', Some ''10.1.0.0/16'']
     \<and> KubeconfigExtension.AlsoProxy kf2
         = [Some ''192.168.0.0/24'', Some ''10.1.0.0/16'', Some ''10.1.0.0/16'']"
proof -
  have parse: "example_yaml_Unmarshal ''payload'' = Inr example_remote"
    by (simp add: example_yaml_Unmarshal_def)
  from AddRemoteKubeConfigExtension_twice
         [where yaml_Unmarshal = example_yaml_Unmarshal and cfgYaml = "''payload''"
            and kf = "example_kubeconfig (Some example_local_dns)", OF parse]
  show ?thesis
    apply (elim exE conjE)
    apply (intro exI conjI)
               apply assumption
              apply assumption
             apply assumption
            apply assumption
           apply (simp_all add: example_remote_def example_kubeconfig_def
                    example_local_dns_def Let_def)
    done
qed

text \<open>
  Claim C8. When the local configuration has a non-empty \<open>LocalIP\<close>, merging any
  payload (one that fails to parse included) leaves \<open>LocalIP\<close> as it was. When the local
  \<open>LocalIP\<close> is empty (the \<open>DNS\<close> section missing, or its \<open>LocalIP\<close> empty) and the
  payload parses with a \<open>dns\<close> section, the merge succeeds and the local \<open>LocalIP\<close> is
  exactly the remote one.
\<close>

theorem AddRemoteKubeConfigExtension_LocalIP:
  "(\<forall>d. KubeconfigExtension.DNS kf = Some d \<and> DnsConfig.LocalIP d \<noteq> [] \<longrightarrow>
      (\<exists>err kf' d'. AddRemoteKubeConfigExtension yaml_Unmarshal kf cfgYaml = (err, kf')
         \<and> KubeconfigExtension.DNS kf' = Some d' \<and> DnsConfig.LocalIP d' = DnsConfig.LocalIP d))
   \<and> (\<forall>remote dns.
        (KubeconfigExtension.DNS kf = None
           \<or> (\<exists>d. KubeconfigExtension.DNS kf = Some d \<and> DnsConfig.LocalIP d = []))
        \<and> yaml_Unmarshal cfgYaml = Inr remote \<and> remote_config.DNS remote = Some dns \<longrightarrow>
      (\<exists>kf' d'. AddRemoteKubeConfigExtension yaml_Unmarshal kf cfgYaml = (None, kf')
         \<and> KubeconfigExtension.DNS kf' = Some d' \<and> DnsConfig.LocalIP d' = DNS.LocalIP dns))"
proof (intro conjI allI impI)
  fix d
  assume a: "KubeconfigExtension.DNS kf = Some d \<and> DnsConfig.LocalIP d \<noteq> []"
  show "\<exists>err kf' d'. AddRemoteKubeConfigExtension yaml_Unmarshal kf cfgYaml = (err, kf')
         \<and> KubeconfigExtension.DNS kf' = Some d' \<and> DnsConfig.LocalIP d' = DnsConfig.LocalIP d"
  proof (cases "yaml_Unmarshal cfgYaml")
    case (Inl err)
    with a show ?thesis by (simp add: AddRemoteKubeConfigExtension_def)
  next
    case (Inr remote)
    from AddRemote_parsed [where yaml_Unmarshal = yaml_Unmarshal and cfgYaml = cfgYaml
                             and kf = kf, OF Inr]
    obtain kf' d' where
      "AddRemoteKubeConfigExtension yaml_Unmarshal kf cfgYaml = (None, kf')"
      "KubeconfigExtension.DNS kf' = Some d'"
      "d' = (let d0 = (case KubeconfigExtension.DNS kf of None \<Rightarrow> DnsConfig_zero | Some d \<Rightarrow> d)
             in case remote_config.DNS remote of None \<Rightarrow> d0 | Some dns \<Rightarrow> merge_dns dns d0)"
      by blast
    moreover from this a have "DnsConfig.LocalIP d' = DnsConfig.LocalIP d"
      by (cases "remote_config.DNS remote") (simp_all add: Let_def)
    ultimately show ?thesis by blast
  qed
next
  fix remote dns
  assume a: "(KubeconfigExtension.DNS kf = None
           \<or> (\<exists>d. KubeconfigExtension.DNS kf = Some d \<and> DnsConfig.LocalIP d = []))
        \<and> yaml_Unmarshal cfgYaml = Inr remote \<and> remote_config.DNS remote = Some dns"
  then have parse: "yaml_Unmarshal cfgYaml = Inr remote" by simp
  from AddRemote_parsed [where yaml_Unmarshal = yaml_Unmarshal and cfgYaml = cfgYaml
                           and kf = kf, OF parse]
  obtain kf' d' where
    "AddRemoteKubeConfigExtension yaml_Unmarshal kf cfgYaml = (None, kf')"
    "KubeconfigExtension.DNS kf' = Some d'"
    "d' = (let d0 = (case KubeconfigExtension.DNS kf of None \<Rightarrow> DnsConfig_zero | Some d \<Rightarrow> d)
           in case remote_config.DNS remote of None \<Rightarrow> d0 | Some dns \<Rightarrow> merge_dns dns d0)"
    by blast
  moreover from this a have "DnsConfig.LocalIP d' = DNS.LocalIP dns"
    by (auto simp add: Let_def DnsConfig_zero_def)
  ultimately show "\<exists>kf' d'. AddRemoteKubeConfigExtension yaml_Unmarshal kf cfgYaml = (None, kf')
         \<and> KubeconfigExtension.DNS kf' = Some d' \<and> DnsConfig.LocalIP d' = DNS.LocalIP dns"
    by blast
qed

text \<open>A local address that stays, and a missing one that is filled from the payload.\<close>

theorem AddRemoteKubeConfigExtension_LocalIP_witness:
  "(\<exists>err kf' d'. AddRemoteKubeConfigExtension example_yaml_Unmarshal
         (example_kubeconfig (Some example_local_dns)) ''payload'' = (err, kf')
      \<and> KubeconfigExtension.DNS kf' = Some d' \<and> DnsConfig.LocalIP d' = ''127.0.0.53'')
   \<and> (\<exists>kf' d'. AddRemoteKubeConfigExtension example_yaml_Unmarshal
         (example_kubeconfig None) ''payload'' = (None, kf')
      \<and> KubeconfigExtension.DNS kf' = Some d' \<and> DnsConfig.LocalIP d' = ''10.0.0.53'')"
proof
  have "KubeconfigExtension.DNS (example_kubeconfig (Some example_local_dns)) = Some example_local_dns
        \<and> DnsConfig.LocalIP example_local_dns \<noteq> []"
    by (simp add: example_kubeconfig_def example_local_dns_def)
  with AddRemoteKubeConfigExtension_LocalIP
         [where yaml_Unmarshal = example_yaml_Unmarshal and cfgYaml = "''payload''"
            and kf = "example_kubeconfig (Some example_local_dns)"]
  have "\<exists>err kf' d'. AddRemoteKubeConfigExtension example_yaml_Unmarshal
         (example_kubeconfig (Some example_local_dns)) ''payload'' = (err, kf')
      \<and> KubeconfigExtension.DNS kf' = Some d'
      \<and> DnsConfig.LocalIP d' = DnsConfig.LocalIP example_local_dns"
    by blast
  then show "\<exists>err kf' d'. AddRemoteKubeConfigExtension example_yaml_Unmarshal
         (example_kubeconfig (Some example_local_dns)) ''payload'' = (err, kf')
      \<and> KubeconfigExtension.DNS kf' = Some d' \<and> DnsConfig.LocalIP d' = ''127.0.0.53''"
    by (simp add: example_local_dns_def)
next
  let ?dns = "\<lparr>DNS.LocalIP = ''10.0.0.53'', DNS.RemoteIP = ''10.96.0.10'',
         DNS.ExcludeSuffixes = [''.com''], DNS.IncludeSuffixes = [''.local''],
         DNS.Excludes = [''skip''],
         DNS.Mappings = [Some \<lparr>DNSMapping.Name = ''a'', DNSMapping.AliasFor = ''b''\<rparr>],
         DNS.LookupTimeout = 7\<rparr>"
  have "(KubeconfigExtension.DNS (example_kubeconfig None) = None
           \<or> (\<exists>d. KubeconfigExtension.DNS (example_kubeconfig None) = Some d \<and> DnsConfig.LocalIP d = []))
        \<and> example_yaml_Unmarshal ''payload'' = Inr example_remote
        \<and> remote_config.DNS example_remote = Some ?dns"
    by (simp add: example_kubeconfig_def example_yaml_Unmarshal_def example_remote_def)
  with AddRemoteKubeConfigExtension_LocalIP
         [where yaml_Unmarshal = example_yaml_Unmarshal and cfgYaml = "''payload''"
            and kf = "example_kubeconfig None"]
  have "\<exists>kf' d'. AddRemoteKubeConfigExtension example_yaml_Unmarshal
         (example_kubeconfig None) ''payload'' = (None, kf')
      \<and> KubeconfigExtension.DNS kf' = Some d' \<and> DnsConfig.LocalIP d' = DNS.LocalIP ?dns"
    by blast
  then show "\<exists>kf' d'. AddRemoteKubeConfigExtension example_yaml_Unmarshal
         (example_kubeconfig None) ''payload'' = (None, kf')
      \<and> KubeconfigExtension.DNS kf' = Some d' \<and> DnsConfig.LocalIP d' = ''10.0.0.53''"
    by simp
qed

section \<open>Properties of newKubeconfig\<close>

text \<open>The manager namespace that lines 255 to 268 leave in the result.\<close>

lemma resolve_manager_namespace_Manager:
  "Manager (resolve_manager_namespace env override k) =
     Some \<lparr>ManagerConfig.Namespace =
       (let n0 = (case Manager k of None \<Rightarrow> [] | Some m \<Rightarrow> ManagerConfig.Namespace m) in
        if override \<noteq> [] then override
        else if n0 \<noteq> [] then n0
        else if Env_ManagerNamespace env \<noteq> [] then Env_ManagerNamespace env
        else DefaultManagerNamespace env)\<rparr>"
  by (cases "Manager k")
     (simp_all add: resolve_manager_namespace_def ManagerConfig_zero_def Let_def)

text \<open>
  Claim C1 as stated fails on the code: with an empty override, the environment's manager
  namespace \<open>y\<close> and a cluster extension whose manager namespace is \<open>z\<close>, the resolved
  configuration holds \<open>z\<close>, not \<open>y\<close>.
\<close>

theorem newKubeconfig_env_below_extension_counterexample:
  "Env_ManagerNamespace example_client_env = ''y''
   \<and> newKubeconfig example_client_env Map.empty [] example_ConfigFlags =
       Inr \<lparr>KubeconfigExtension.DNS = None,
            KubeconfigExtension.AlsoProxy = [],
            KubeconfigExtension.NeverProxy = [],
            KubeconfigExtension.Manager = Some \<lparr>ManagerConfig.Namespace = ''z''\<rparr>,
            Kubeconfig.Namespace = ''default'',
            Kubeconfig.Context = ''dev'',
            Kubeconfig.Server = ''https://localhost:6443'',
            Kubeconfig.FlagMap = Map.empty,
            Kubeconfig.ConfigFlags = Some example_ConfigFlags,
            Kubeconfig.RestConfig = Some \<lparr>Host = ''https://localhost:6443''\<rparr>\<rparr>"
  by (simp add: newKubeconfig_def example_client_env_def example_api_config_def
        load_extension_def resolve_manager_namespace_def configExtension_def
        index_map_def Let_def)

text \<open>
  Claim C1, amended. For every flag map and every kubeconfig that resolves (the raw
  configuration loads and has a context, the selected context and its cluster exist, the
  client configuration loads) and whose cluster extension parses and carries a manager
  section, \<open>newKubeconfig\<close> succeeds and the manager namespace of the result is the first
  non-empty of: the explicit override, the extension's value, the environment's value;
  and the global default when all three are empty. The extension's value comes before
  the environment's.
\<close>

theorem newKubeconfig_manager_namespace_precedence:
  assumes raw: "RawConfig (ToRawKubeConfigLoader env configFlags) = Inr config"
    and contexts: "Contexts config \<noteq> []"
    and ns: "ClientConfig.Namespace (ToRawKubeConfigLoader env configFlags) = Inr namespace"
    and ctx: "map_of (Contexts config)
                (if index_map flagMap ''context'' = [] then CurrentContext config
                 else index_map flagMap ''context'') = Some (Some ctx)"
    and cluster: "map_of (Clusters config) (Cluster ctx) = Some (Some cluster)"
    and rest: "ClientConfig (ToRawKubeConfigLoader env configFlags) = Inr restConfig"
    and ext: "map_of (Extensions cluster) configExtension = Some (Unknown (Some raw))"
    and parse: "json_Unmarshal env raw = Inr ext"
    and manager: "Manager ext = Some m"
  shows "\<exists>k m'. newKubeconfig env flagMap managerNamespaceOverride configFlags = Inr k
           \<and> Manager k = Some m'
           \<and> ManagerConfig.Namespace m' =
               (if managerNamespaceOverride \<noteq> [] then managerNamespaceOverride
                else if ManagerConfig.Namespace m \<noteq> [] then ManagerConfig.Namespace m
                else if Env_ManagerNamespace env \<noteq> [] then Env_ManagerNamespace env
                else DefaultManagerNamespace env)"
proof -
  let ?k0 = "\<lparr>KubeconfigExtension.DNS = None,
               KubeconfigExtension.AlsoProxy = [],
               KubeconfigExtension.NeverProxy = [],
               KubeconfigExtension.Manager = None,
               Kubeconfig.Namespace = namespace,
               Kubeconfig.Context = (if index_map flagMap ''context'' = [] then CurrentContext config
                 else index_map flagMap ''context''),
               Kubeconfig.Server = api_Cluster.Server cluster,
               Kubeconfig.FlagMap = flagMap,
               Kubeconfig.ConfigFlags = Some configFlags,
               Kubeconfig.RestConfig = Some restConfig\<rparr>"
  obtain k1 where k1: "load_extension env cluster ?k0 = Inr k1" and m1: "Manager k1 = Some m"
    using ext parse manager by (simp add: load_extension_def)
  have "newKubeconfig env flagMap managerNamespaceOverride configFlags
          = Inr (resolve_manager_namespace env managerNamespaceOverride k1)"
    using raw contexts ns ctx cluster rest k1
    by (simp add: newKubeconfig_def Let_def)
  moreover have "Manager (resolve_manager_namespace env managerNamespaceOverride k1)
      = Some \<lparr>ManagerConfig.Namespace =
               (if managerNamespaceOverride \<noteq> [] then managerNamespaceOverride
                else if ManagerConfig.Namespace m \<noteq> [] then ManagerConfig.Namespace m
                else if Env_ManagerNamespace env \<noteq> [] then Env_ManagerNamespace env
                else DefaultManagerNamespace env)\<rparr>"
    by (simp add: resolve_manager_namespace_Manager m1 Let_def)
  ultimately show ?thesis by simp
qed

text \<open>The example kubeconfig satisfies every hypothesis; the extension's \<open>z\<close> is the result.\<close>

theorem newKubeconfig_manager_namespace_precedence_witness:
  "\<exists>k m'. newKubeconfig example_client_env Map.empty [] example_ConfigFlags = Inr k
     \<and> Manager k = Some m' \<and> ManagerConfig.Namespace m' = ''z''"
proof -
  let ?cluster = "\<lparr>api_Cluster.Server = ''https://localhost:6443'',
                    Extensions = [(''telepresence.io'', Unknown (Some ''manager-z''))]\<rparr>"
  let ?ext = "\<lparr>KubeconfigExtension.DNS = None, KubeconfigExtension.AlsoProxy = [],
                KubeconfigExtension.NeverProxy = [],
                Manager = Some \<lparr>ManagerConfig.Namespace = ''z''\<rparr>\<rparr>"
  have raw: "RawConfig (ToRawKubeConfigLoader example_client_env example_ConfigFlags)
               = Inr example_api_config"
    by (simp add: example_client_env_def)
  have contexts: "Contexts example_api_config \<noteq> []"
    by (simp add: example_api_config_def)
  have ns: "ClientConfig.Namespace (ToRawKubeConfigLoader example_client_env example_ConfigFlags)
              = Inr ''default''"
    by (simp add: example_client_env_def)
  have ctx: "map_of (Contexts example_api_config)
               (if index_map Map.empty ''context'' = [] then CurrentContext example_api_config
                else index_map Map.empty ''context'') = Some (Some \<lparr>Cluster = ''kind''\<rparr>)"
    by (simp add: example_api_config_def index_map_def)
  have cluster: "map_of (Clusters example_api_config) (Cluster \<lparr>Cluster = ''kind''\<rparr>)
                   = Some (Some ?cluster)"
    by (simp add: example_api_config_def)
  have rest: "ClientConfig (ToRawKubeConfigLoader example_client_env example_ConfigFlags)
                = Inr \<lparr>Host = ''https://localhost:6443''\<rparr>"
    by (simp add: example_client_env_def)
  have ext: "map_of (Extensions ?cluster) configExtension = Some (Unknown (Some ''manager-z''))"
    by (simp add: configExtension_def)
  have parse: "json_Unmarshal example_client_env ''manager-z'' = Inr ?ext"
    by (simp add: example_client_env_def)
  have manager: "Manager ?ext = Some \<lparr>ManagerConfig.Namespace = ''z''\<rparr>"
    by simp
  from newKubeconfig_manager_namespace_precedence
         [OF raw contexts ns ctx cluster rest ext parse manager, of "[]"]
  show ?thesis by simp
qed

section \<open>Properties of NewIdentifier\<close>

text \<open>
  Claim C6. With an empty name and a non-empty namespace \<open>n\<close>, \<open>NewIdentifier\<close> succeeds
  and the identifier's name is \<open>SafeContainerName\<close> of \<open>c-n\<close> for a non-empty context
  \<open>c\<close> and of \<open>in-cluster-n\<close> for the empty context; with an empty namespace it fails
  whatever the name and the context are.
\<close>

theorem NewIdentifier_default_name:
  "(namespace \<noteq> [] \<longrightarrow>
      NewIdentifier SafeContainerName [] contextName namespace =
        Inr \<lparr>Identifier.Name =
               SafeContainerName (if contextName \<noteq> [] then contextName @ ''-'' @ namespace
                                  else ''in-cluster-'' @ namespace),
             KubeContext = contextName, Identifier.Namespace = namespace\<rparr>)
   \<and> NewIdentifier SafeContainerName name contextName [] =
        Inl (New ''daemon identifier must have a namespace'')"
  by (simp add: NewIdentifier_def)

text \<open>Both derived names and the failure, with a sanitiser that replaces two characters.\<close>

theorem NewIdentifier_default_name_witness:
  "NewIdentifier example_SafeContainerName [] ''kind/dev'' ''team-a'' =
     Inr \<lparr>Identifier.Name = ''kind-dev-team-a'', KubeContext = ''kind/dev'',
          Identifier.Namespace = ''team-a''\<rparr>
   \<and> NewIdentifier example_SafeContainerName [] [] ''team-a'' =
     Inr \<lparr>Identifier.Name = ''in-cluster-team-a'', KubeContext = [],
          Identifier.Namespace = ''team-a''\<rparr>
   \<and> NewIdentifier example_SafeContainerName ''mine'' ''kind/dev'' [] =
     Inl (New ''daemon identifier must have a namespace'')"
  using NewIdentifier_default_name [of "''team-a''" example_SafeContainerName "''kind/dev''" "''mine''"]
        NewIdentifier_default_name [of "''team-a''" example_SafeContainerName "[]" "''mine''"]
  by (simp add: example_SafeContainerName_def)

section \<open>Properties of Request.CommitFlags\<close>

text \<open>
  On an allocated map the visit of the flag set never panics, and the keys it adds are
  the names of the changed flags.
\<close>

lemma VisitAll_allocated:
  "\<exists>m'. VisitAll env flags (Some m) = Inr (Some m')
        \<and> dom m' = dom m \<union> set (map Flag.Name (filter Changed flags))"
proof (induction flags arbitrary: m)
  case Nil
  show ?case by simp
next
  case (Cons flag flags)
  show ?case
  proof (cases "Changed flag")
    case True
    let ?v = "case Flag.Value flag of SliceValue s vs \<Rightarrow> AsCSV env vs | PlainValue s \<Rightarrow> s"
    from Cons.IH obtain m' where
      v: "VisitAll env flags (Some (m(Flag.Name flag \<mapsto> ?v))) = Inr (Some m')"
      and d: "dom m' = dom (m(Flag.Name flag \<mapsto> ?v)) \<union> set (map Flag.Name (filter Changed flags))"
      by blast
    have "VisitAll env (flag # flags) (Some m) = Inr (Some m')"
      using True v by (simp add: visit_flag_def Let_def)
    moreover have "dom m' = dom m \<union> set (map Flag.Name (filter Changed (flag # flags)))"
      using True d by auto
    ultimately show ?thesis by blast
  next
    case False
    with Cons [of m] show ?thesis by (simp add: visit_flag_def)
  qed
qed

text \<open>The docker and use blocks leave both maps of the request alone.\<close>

lemma set_docker_fields [simp]:
  "KubeFlags (set_docker cmd cr) = KubeFlags cr"
  "Environment (set_docker cmd cr) = Environment cr"
  by (simp_all add: set_docker_def split: option.split)

lemma set_use_fields:
  "KubeFlags (snd (set_use env cmd cr)) = KubeFlags cr"
  "Environment (snd (set_use env cmd cr)) = Environment cr"
  by (simp_all add: set_use_def split: option.split sum.split prod.split)

text \<open>The context block on a request with an allocated map and configuration.\<close>

lemma set_context_allocated:
  assumes "KubeFlags cr = Some m" and "kubeConfig cr = Some cfg"
  shows "\<exists>cr1. set_context cmd cr = Inr cr1
           \<and> Environment cr1 = Environment cr
           \<and> KubeFlags cr1 =
               Some (case Flag cmd FlagContext of
                       None \<Rightarrow> m
                     | Some contextFlag \<Rightarrow>
                         if Changed contextFlag
                         then m(FlagContext \<mapsto> Value_String (Flag.Value contextFlag)) else m)"
  using assms by (simp add: set_context_def Let_def split: option.split)

text \<open>
  \<open>CommitFlags\<close> on a request whose map, flag set and configuration are allocated: no
  step panics, and the request returned holds the visited flags, the global context flag
  and the captured environment.
\<close>

lemma CommitFlags_allocated:
  assumes kf: "KubeFlags cr = Some kf0"
    and fs: "kubeFlagSet cr = Some flags"
    and cfg: "kubeConfig cr = Some cfg"
  shows "\<exists>m1 cr1.
           VisitAll env flags (Some kf0) = Inr (Some m1)
         \<and> dom m1 = dom kf0 \<union> set (map Flag.Name (filter Changed flags))
         \<and> KubeFlags cr1 =
              Some (case Flag cmd FlagContext of
                      None \<Rightarrow> m1
                    | Some contextFlag \<Rightarrow>
                        if Changed contextFlag
                        then m1(FlagContext \<mapsto> Value_String (Flag.Value contextFlag)) else m1)
         \<and> Environment cr1 =
              Some (addEnv env ''GOOGLE_APPLICATION_CREDENTIALS''
                     (addEnv env ''KUBECONFIG'' Map.empty))
         \<and> CommitFlags env cmd cr =
              (case set_use env cmd (set_docker cmd cr1) of
                 (Some err, cr') \<Rightarrow> (Some err, cr', cmd)
               | (None, cr') \<Rightarrow> (None, cr', cmd\<lparr>requestKey := Some cr'\<rparr>))"
proof -
  from VisitAll_allocated [of env flags kf0] obtain m1 where
    v: "VisitAll env flags (Some kf0) = Inr (Some m1)"
    and d: "dom m1 = dom kf0 \<union> set (map Flag.Name (filter Changed flags))"
    by blast
  let ?cr0 = "addKubeconfigEnv env (cr\<lparr>KubeFlags := Some m1\<rparr>)"
  have "KubeFlags ?cr0 = Some m1" and "kubeConfig ?cr0 = Some cfg"
    using cfg by (simp_all add: addKubeconfigEnv_def)
  from set_context_allocated [OF this, of cmd] obtain cr1 where
    c: "set_context cmd ?cr0 = Inr cr1"
    and e: "Environment cr1 = Environment ?cr0"
    and k: "KubeFlags cr1 =
               Some (case Flag cmd FlagContext of
                       None \<Rightarrow> m1
                     | Some contextFlag \<Rightarrow>
                         if Changed contextFlag
                         then m1(FlagContext \<mapsto> Value_String (Flag.Value contextFlag)) else m1)"
    by blast
  have e': "Environment cr1 =
              Some (addEnv env ''GOOGLE_APPLICATION_CREDENTIALS''
                     (addEnv env ''KUBECONFIG'' Map.empty))"
    using e by (simp add: addKubeconfigEnv_def)
  have "CommitFlags env cmd cr =
              (case set_use env cmd (set_docker cmd cr1) of
                 (Some err, cr') \<Rightarrow> (Some err, cr', cmd)
               | (None, cr') \<Rightarrow> (None, cr', cmd\<lparr>requestKey := Some cr'\<rparr>))"
    using fs kf v c by (simp add: CommitFlags_def setGlobalConnectFlags_def)
  with v d k e' show ?thesis by blast
qed

text \<open>\<open>CommitFlags\<close> returns a triple.\<close>

lemma CommitFlags_result:
  "\<exists>err cr' cmd'. CommitFlags env cmd cr = (err, cr', cmd')"
  by (cases "CommitFlags env cmd cr") auto

text \<open>
  Claim C9. On a bound request (its \<open>KubeFlags\<close> map, flag set and configuration
  allocated), whatever \<open>CommitFlags\<close> returns, the keys of \<open>KubeFlags\<close> afterwards are
  the keys it had before (none, for the empty map of a new request), the names of the
  Kubernetes flags that are changed, and \<open>context\<close> when the global context flag exists
  and is changed. No key is added for an unchanged flag, whatever its default value.
\<close>

theorem CommitFlags_KubeFlags_only_changed:
  assumes kf: "KubeFlags cr = Some kf0"
    and fs: "kubeFlagSet cr = Some flags"
    and cfg: "kubeConfig cr = Some cfg"
  shows "\<exists>err cr' cmd' kf'.
           CommitFlags env cmd cr = (err, cr', cmd')
         \<and> KubeFlags cr' = Some kf'
         \<and> dom kf' = dom kf0
              \<union> set (map Flag.Name (filter Changed flags))
              \<union> (case Flag cmd FlagContext of
                    None \<Rightarrow> {}
                  | Some contextFlag \<Rightarrow> if Changed contextFlag then {FlagContext} else {})"
proof -
  from CommitFlags_allocated [OF kf fs cfg, of env cmd] obtain m1 cr1 where
    d: "dom m1 = dom kf0 \<union> set (map Flag.Name (filter Changed flags))"
    and k: "KubeFlags cr1 =
              Some (case Flag cmd FlagContext of
                      None \<Rightarrow> m1
                    | Some contextFlag \<Rightarrow>
                        if Changed contextFlag
                        then m1(FlagContext \<mapsto> Value_String (Flag.Value contextFlag)) else m1)"
    and c: "CommitFlags env cmd cr =
              (case set_use env cmd (set_docker cmd cr1) of
                 (Some err, cr') \<Rightarrow> (Some err, cr', cmd)
               | (None, cr') \<Rightarrow> (None, cr', cmd\<lparr>requestKey := Some cr'\<rparr>))"
    by blast
  obtain e cr' where u: "set_use env cmd (set_docker cmd cr1) = (e, cr')"
    by (cases "set_use env cmd (set_docker cmd cr1)") auto
  have "KubeFlags cr' = KubeFlags cr1"
    using set_use_fields(1) [of env cmd "set_docker cmd cr1"] u by simp
  with k have k': "KubeFlags cr' =
              Some (case Flag cmd FlagContext of
                      None \<Rightarrow> m1
                    | Some contextFlag \<Rightarrow>
                        if Changed contextFlag
                        then m1(FlagContext \<mapsto> Value_String (Flag.Value contextFlag)) else m1)"
    by simp
  have dm: "dom (case Flag cmd FlagContext of
                      None \<Rightarrow> m1
                    | Some contextFlag \<Rightarrow>
                        if Changed contextFlag
                        then m1(FlagContext \<mapsto> Value_String (Flag.Value contextFlag)) else m1)
        = dom kf0
              \<union> set (map Flag.Name (filter Changed flags))
              \<union> (case Flag cmd FlagContext of
                    None \<Rightarrow> {}
                  | Some contextFlag \<Rightarrow> if Changed contextFlag then {FlagContext} else {})"
    using d by (cases "Flag cmd FlagContext") auto
  have "\<exists>cmd'. CommitFlags env cmd cr = (e, cr', cmd')"
    using c u by (cases e) simp_all
  with k' dm show ?thesis by blast
qed

text \<open>
  A new request with two changed flags, the changed global context flag and the unchanged
  flag \<open>request-timeout\<close>, whose default is \<open>0\<close>.
\<close>

theorem CommitFlags_KubeFlags_only_changed_witness:
  "\<exists>err cr' cmd' kf'.
       CommitFlags (example_cli_env Map.empty) (example_command ''tp-.*'') example_request
         = (err, cr', cmd')
     \<and> KubeFlags cr' = Some kf'
     \<and> dom kf' = {''as-group'', ''kubeconfig'', ''context''}
     \<and> ''request-timeout'' \<notin> dom kf'"
proof -
  have kf: "KubeFlags example_request = Some Map.empty"
    and fs: "kubeFlagSet example_request = Some example_kube_flags"
    and cfg: "kubeConfig example_request = Some example_ConfigFlags"
    by (simp_all add: example_request_def)
  from CommitFlags_KubeFlags_only_changed
         [OF kf fs cfg, of "example_cli_env Map.empty" "example_command ''tp-.*''"]
  show ?thesis
    apply (elim exE conjE)
    apply (intro exI conjI)
       apply assumption
      apply assumption
     apply (simp_all add: example_kube_flags_def example_command_def FlagContext_def)
     apply auto
    done
qed

text \<open>
  Claim C5. For every ambient environment, after \<open>CommitFlags\<close> on a bound request the
  \<open>Environment\<close> map is allocated and holds exactly one of the two keys: when
  \<open>KUBECONFIG\<close> is unset, \<open>-KUBECONFIG\<close> with the empty string and no \<open>KUBECONFIG\<close>; when
  it is set to \<open>v\<close>, \<open>KUBECONFIG\<close> with \<open>v\<close> and no \<open>-KUBECONFIG\<close>.
\<close>

theorem CommitFlags_captures_KUBECONFIG:
  assumes kf: "KubeFlags cr = Some kf0"
    and fs: "kubeFlagSet cr = Some flags"
    and cfg: "kubeConfig cr = Some cfg"
  shows "\<exists>err cr' cmd' environment.
           CommitFlags env cmd cr = (err, cr', cmd')
         \<and> Environment cr' = Some environment
         \<and> (case LookupEnv env ''KUBECONFIG'' of
               None \<Rightarrow> environment ''-KUBECONFIG'' = Some [] \<and> environment ''KUBECONFIG'' = None
             | Some v \<Rightarrow> environment ''KUBECONFIG'' = Some v \<and> environment ''-KUBECONFIG'' = None)"
proof -
  let ?environment = "addEnv env ''GOOGLE_APPLICATION_CREDENTIALS''
                        (addEnv env ''KUBECONFIG'' Map.empty)"
  from CommitFlags_allocated [OF kf fs cfg, of env cmd] obtain cr1 where
    e: "Environment cr1 = Some ?environment"
    and c: "CommitFlags env cmd cr =
              (case set_use env cmd (set_docker cmd cr1) of
                 (Some err, cr') \<Rightarrow> (Some err, cr', cmd)
               | (None, cr') \<Rightarrow> (None, cr', cmd\<lparr>requestKey := Some cr'\<rparr>))"
    by blast
  obtain err cr' where u: "set_use env cmd (set_docker cmd cr1) = (err, cr')"
    by (cases "set_use env cmd (set_docker cmd cr1)") auto
  have "Environment cr' = Environment cr1"
    using set_use_fields(2) [of env cmd "set_docker cmd cr1"] u by simp
  with e have e': "Environment cr' = Some ?environment" by simp
  have v: "(case LookupEnv env ''KUBECONFIG'' of
               None \<Rightarrow> ?environment ''-KUBECONFIG'' = Some [] \<and> ?environment ''KUBECONFIG'' = None
             | Some v \<Rightarrow> ?environment ''KUBECONFIG'' = Some v \<and> ?environment ''-KUBECONFIG'' = None)"
    by (simp add: addEnv_def split: option.split)
  have "\<exists>cmd'. CommitFlags env cmd cr = (err, cr', cmd')"
    using c u by (cases err) simp_all
  with e' v show ?thesis by blast
qed

text \<open>The unset variable, and the variable set to \<open>/a:/b\<close>.\<close>

theorem CommitFlags_captures_KUBECONFIG_witness:
  "(\<exists>err cr' cmd' environment.
       CommitFlags (example_cli_env Map.empty) (example_command ''tp-.*'') example_request
         = (err, cr', cmd')
     \<and> Environment cr' = Some environment
     \<and> environment ''-KUBECONFIG'' = Some [] \<and> environment ''KUBECONFIG'' = None)
   \<and> (\<exists>err cr' cmd' environment.
       CommitFlags (example_cli_env [''KUBECONFIG'' \<mapsto> ''/a:/b'']) (example_command ''tp-.*'')
         example_request = (err, cr', cmd')
     \<and> Environment cr' = Some environment
     \<and> environment ''KUBECONFIG'' = Some ''/a:/b'' \<and> environment ''-KUBECONFIG'' = None)"
proof -
  have kf: "KubeFlags example_request = Some Map.empty"
    and fs: "kubeFlagSet example_request = Some example_kube_flags"
    and cfg: "kubeConfig example_request = Some example_ConfigFlags"
    by (simp_all add: example_request_def)
  have unset: "LookupEnv (example_cli_env Map.empty) ''KUBECONFIG'' = None"
    and set: "LookupEnv (example_cli_env [''KUBECONFIG'' \<mapsto> ''/a:/b'']) ''KUBECONFIG''
                = Some ''/a:/b''"
    by (simp_all add: example_cli_env_def)
  from CommitFlags_captures_KUBECONFIG
         [OF kf fs cfg, of "example_cli_env Map.empty" "example_command ''tp-.*''"]
       CommitFlags_captures_KUBECONFIG
         [OF kf fs cfg, of "example_cli_env [''KUBECONFIG'' \<mapsto> ''/a:/b'']"
            "example_command ''tp-.*''"]
  show ?thesis unfolding unset set by simp
qed

text \<open>
  Claim C3 as stated fails on the code: for the pattern \<open>(\<close>, which does not compile,
  \<open>CommitFlags\<close> returns the error of \<open>regexp.Compile\<close> as it is, and that error carries no
  category.
\<close>

theorem CommitFlags_use_error_uncategorized_counterexample:
  "fst (CommitFlags (example_cli_env Map.empty) (example_command ''('') example_request)
     = Some (SyntaxError ''missing closing )'' ''('')
   \<and> GetCategory (SyntaxError ''missing closing )'' ''('') = None"
  by (simp add: CommitFlags_def setGlobalConnectFlags_def set_context_def set_docker_def
        set_use_def addKubeconfigEnv_def visit_flag_def example_cli_env_def
        example_command_def example_request_def example_kube_flags_def
        FlagContext_def FlagDocker_def FlagUse_def Let_def)

text \<open>
  Claim C3, amended. \<open>CommitFlags\<close> on a bound request with a changed \<open>--use\<close> flag:
  when the flag's value does not compile, it fails with the syntax error of
  \<open>regexp.Compile\<close>, returned unwrapped and carrying no category, leaves \<open>Use\<close> nil and
  does not store the request in the command; when the value compiles, it succeeds and
  \<open>Use\<close> is the compiled expression.
\<close>

theorem CommitFlags_use_pattern:
  assumes kf: "KubeFlags cr = Some kf0"
    and fs: "kubeFlagSet cr = Some flags"
    and cfg: "kubeConfig cr = Some cfg"
    and use: "Flag cmd FlagUse = Some useFlag"
    and changed: "Changed useFlag"
  shows "case regexp_Compile env (Value_String (Flag.Value useFlag)) of
           Inl (code, expr) \<Rightarrow>
             (\<exists>cr'. CommitFlags env cmd cr = (Some (SyntaxError code expr), cr', cmd)
                \<and> Use cr' = None)
             \<and> GetCategory (SyntaxError code expr) = None
         | Inr re \<Rightarrow>
             (\<exists>cr'. CommitFlags env cmd cr = (None, cr', cmd\<lparr>requestKey := Some cr'\<rparr>)
                \<and> Use cr' = Some re)"
proof -
  from CommitFlags_allocated [OF kf fs cfg, of env cmd] obtain cr1 where
    c: "CommitFlags env cmd cr =
              (case set_use env cmd (set_docker cmd cr1) of
                 (Some err, cr') \<Rightarrow> (Some err, cr', cmd)
               | (None, cr') \<Rightarrow> (None, cr', cmd\<lparr>requestKey := Some cr'\<rparr>))"
    by blast
  show ?thesis
    using use changed
    by (simp add: c set_use_def split: sum.split prod.split)
qed

text \<open>A pattern that does not compile and one that does.\<close>

theorem CommitFlags_use_pattern_witness:
  "(\<exists>cr'. CommitFlags (example_cli_env Map.empty) (example_command ''('') example_request
            = (Some (SyntaxError ''missing closing )'' ''(''), cr', example_command ''('')
        \<and> Use cr' = None)
   \<and> (\<exists>cr'. CommitFlags (example_cli_env Map.empty) (example_command ''tp-.*'') example_request
            = (None, cr', (example_command ''tp-.*'')\<lparr>requestKey := Some cr'\<rparr>)
        \<and> Use cr' = Some (Regexp ''tp-.*''))"
proof -
  have kf: "KubeFlags example_request = Some Map.empty"
    and fs: "kubeFlagSet example_request = Some example_kube_flags"
    and cfg: "kubeConfig example_request = Some example_ConfigFlags"
    by (simp_all add: example_request_def)
  have use: "Flag (example_command s) FlagUse
               = Some \<lparr>Flag.Name = ''use'', Flag.Value = PlainValue s, DefValue = [],
                       Changed = True\<rparr>" for s
    by (simp add: example_command_def FlagUse_def)
  have changed: "Changed \<lparr>Flag.Name = ''use'', Flag.Value = PlainValue s, DefValue = [],
                       Changed = True\<rparr>" for s
    by simp
  from CommitFlags_use_pattern [OF kf fs cfg use changed, of "example_cli_env Map.empty" "''(''"]
       CommitFlags_use_pattern [OF kf fs cfg use changed, of "example_cli_env Map.empty" "''tp-.*''"]
  show ?thesis by (simp add: example_cli_env_def)
qed

section \<open>Properties of ensureRootDaemonRunning and Disconnect\<close>

text \<open>
  Claim C4. When the probe of the root daemon's socket answers running, with no error,
  \<open>ensureRootDaemonRunning\<close> returns success and has made no call that changes the
  world: no launch is attempted.
\<close>

theorem ensureRootDaemonRunning_already_running:
  assumes "IsRunning env (RootDaemonPath env) = (True, None)"
  shows "ensureRootDaemonRunning env = (None, [])"
  using assms by (simp add: ensureRootDaemonRunning_def Let_def)

text \<open>A world whose socket answers running.\<close>

theorem ensureRootDaemonRunning_already_running_witness:
  "IsRunning (example_connect_env True (Inl (New ''connection refused'')) None)
     (RootDaemonPath (example_connect_env True (Inl (New ''connection refused'')) None))
     = (True, None)
   \<and> ensureRootDaemonRunning (example_connect_env True (Inl (New ''connection refused'')) None)
     = (None, [])"
proof -
  have r: "IsRunning (example_connect_env True (Inl (New ''connection refused'')) None)
     (RootDaemonPath (example_connect_env True (Inl (New ''connection refused'')) None))
     = (True, None)"
    by (simp add: example_connect_env_def)
  from r ensureRootDaemonRunning_already_running [OF r] show ?thesis by simp
qed

text \<open>
  For contrast, a world whose socket is not running: the daemon is started, here for a
  request with a profiling port.
\<close>

lemma Itoa_6060: "Itoa 6060 = ''6060''"
  by (simp add: Itoa.simps)

lemma launchDaemon_pprof:
  "launchDaemon (example_connect_env False (Inl (New ''connection refused'')) None)
     (Some (example_request\<lparr>RootDaemonProfilingPort := 6060\<rparr>))
   = (None, [Fprintln ''Launching Telepresence Root Daemon'',
             StartInBackgroundAsRoot [''/usr/local/bin/telepresence'', ''daemon-foreground'',
               ''--pprof'', ''6060'',
               ''/home/dev/.cache/telepresence/logs'', ''/home/dev/.config/telepresence'']])"
  by (simp add: launchDaemon_def example_connect_env_def Let_def Itoa_6060)

text \<open>Without a profiling port, through \<open>ensureRootDaemonRunning\<close>.\<close>

lemma ensureRootDaemonRunning_launches:
  "ensureRootDaemonRunning (example_connect_env False (Inl (New ''connection refused'')) None)
     = (None, [Fprintln ''Launching Telepresence Root Daemon'',
               StartInBackgroundAsRoot [''/usr/local/bin/telepresence'', ''daemon-foreground'',
                 ''/home/dev/.cache/telepresence/logs'', ''/home/dev/.config/telepresence'']])"
  by (simp add: ensureRootDaemonRunning_def launchDaemon_def example_connect_env_def
        example_request_def Let_def)

text \<open>
  Claim C2 as stated fails on the code: with no user daemon, a root daemon socket that
  does not vanish and a dial that is refused, \<open>Disconnect\<close> with full teardown returns
  the dial error; with a dial that succeeds and a \<open>Quit\<close> that fails, it returns the
  wrapped RPC error.
\<close>

theorem Disconnect_fallback_dial_failure_counterexample:
  "UserDaemonDisconnect (example_connect_env True (Inl (New ''connection refused'')) None) True
     = Some ErrNoUserDaemon
   \<and> WaitUntilVanishes (example_connect_env True (Inl (New ''connection refused'')) None)
       (RootDaemonPath (example_connect_env True (Inl (New ''connection refused'')) None))
     = Some (New ''timeout while waiting for root daemon to exit'')
   \<and> Disconnect (example_connect_env True (Inl (New ''connection refused'')) None) True
     = Some (New ''connection refused'')
   \<and> Disconnect (example_connect_env True (Inr ''/var/run/telepresence-daemon.socket'')
                   (Some (New ''rpc error: unavailable''))) True
     = Some (ErrorfW ''error when quitting root daemon: %w'' [] (New ''rpc error: unavailable''))"
  by (simp add: Disconnect_def example_connect_env_def Let_def)

text \<open>
  Claim C2, amended. During \<open>Disconnect\<close> with full teardown, when the user daemon's
  disconnect succeeded (or reported no user daemon) and the root daemon's socket has not
  vanished in time, the result is that of the fallback: a dial failure is returned as
  it is, a failure of the \<open>Quit\<close> RPC is returned wrapped as
  \<open>error when quitting root daemon\<close>, and the result is success only when both succeed.
\<close>

theorem Disconnect_fallback_result:
  assumes user: "UserDaemonDisconnect env True = None
                 \<or> (\<exists>e. UserDaemonDisconnect env True = Some e \<and> errors_Is e ErrNoUserDaemon)"
    and stuck: "WaitUntilVanishes env (RootDaemonPath env) = Some timeout"
  shows "Disconnect env True =
           (case Dial env (RootDaemonPath env) of
              Inl e \<Rightarrow> Some e
            | Inr conn \<Rightarrow>
                (case Quit env conn of
                   Some e \<Rightarrow> Some (ErrorfW ''error when quitting root daemon: %w'' [] e)
                 | None \<Rightarrow> None))"
  using assms by (auto simp add: Disconnect_def Let_def)

text \<open>A refused dial, and a fallback that succeeds.\<close>

theorem Disconnect_fallback_result_witness:
  "Disconnect (example_connect_env True (Inl (New ''connection refused'')) None) True
     = Some (New ''connection refused'')
   \<and> Disconnect (example_connect_env True (Inr ''/var/run/telepresence-daemon.socket'') None) True
     = None"
proof -
  have user: "UserDaemonDisconnect (example_connect_env True dial quit) True = None
            \<or> (\<exists>e. UserDaemonDisconnect (example_connect_env True dial quit) True = Some e
                  \<and> errors_Is e ErrNoUserDaemon)" for dial quit
    by (simp add: example_connect_env_def)
  have stuck: "WaitUntilVanishes (example_connect_env True dial quit)
                 (RootDaemonPath (example_connect_env True dial quit))
               = Some (New ''timeout while waiting for root daemon to exit'')" for dial quit
    by (simp add: example_connect_env_def)
  from Disconnect_fallback_result [OF user stuck, of "Inl (New ''connection refused'')" None]
       Disconnect_fallback_result [OF user stuck, of "Inr ''/var/run/telepresence-daemon.socket''" None]
  show ?thesis by (simp add: example_connect_env_def)
qed

end
